theory Spec2Isabelle
  imports Main "HOL-Library.Word"
begin

section \<open>Python values and exceptions\<close>

text \<open>
  The body of the issuer's token endpoint reply, at the fields the code reads
  (\<open>response_dict.get(...)\<close> is \<open>None\<close> for a missing field), with
  the JSON types of OAuth2: strings for the tokens and the error, an integer for
  \<open>expires_in\<close>.
\<close>

record token_response =
  access_token :: "string option"
  refresh_token :: "string option"
  expires_in :: "int option"
  error :: "string option"

text \<open>
  Every exception the modelled functions can raise is a value. The aiohttp classes
  \<open>HTTPFound\<close>, \<open>HTTPBadRequest\<close>, \<open>HTTPUnauthorized\<close>
  and \<open>HTTPForbidden\<close> are exceptions that carry the response the framework
  sends (302, 400, 401, 403). \<open>InvalidTokenError\<close> stands for PyJWT's class
  and all its subclasses, with the message \<open>str(exc)\<close>;
  \<open>ClientResponseError\<close> is what aiohttp's \<open>raise_for_status\<close>
  raises, with the status, and \<open>ContentTypeError\<close> what its
  \<open>response.json()\<close> raises for a reply that is not declared as JSON. The
  reason of an \<open>HTTPBadRequest\<close> is a text or, in
  \<open>json_or_raise_for_status\<close>, the issuer's reply itself.
\<close>

datatype reason = Reason string | ReasonDict token_response

datatype exn =
    KeyError string
  | TypeError
  | AttributeError
  | AssertionError
  | ValueError
  | TokenAlreadyRevoked
  | ReplyError
  | InvalidTokenError string
  | ClientResponseError nat
  | ContentTypeError
  | HTTPFound string
  | HTTPBadRequest reason
  | HTTPUnauthorized string
  | HTTPForbidden string

text \<open>What a view returns (as opposed to raises).\<close>

datatype response =
    Found string
  | NoContent
  | Handled string

text \<open>\<open>str(x)\<close> and \<open>f"{x}"\<close> for a value that is a string or \<open>None\<close>.\<close>

definition py_str :: "string option \<Rightarrow> string" where
  "py_str x = (case x of None \<Rightarrow> ''None'' | Some s \<Rightarrow> s)"

text \<open>Truthiness of a value that is a string or \<open>None\<close>: \<open>if not code\<close>.\<close>

definition truthy :: "string option \<Rightarrow> bool" where
  "truthy x = (case x of None \<Rightarrow> False | Some s \<Rightarrow> s \<noteq> [])"

section \<open>The cache\<close>

text \<open>
  The Redis server behind \<open>request.app['redis']\<close>, as the code uses it through
  aioredis: a map from keys to a value and an optional remaining lifetime in milliseconds.
  \<open>TTL\<close> answers -2 for an absent key, -1 for a key with no expiry, and the
  remaining lifetime rounded to seconds otherwise. \<open>set\<close> refuses a value that
  is \<open>None\<close> (aioredis cannot encode it) and stores without expiry when
  \<open>expire\<close> is 0 or \<open>None\<close> (both falsy in \<open>if
  expire:\<close>). Otherwise it sends \<open>SET key value EX expire\<close>, which the
  server refuses with an error reply when the expiry is negative, when it exceeds
  \<open>LLONG_MAX / 1000\<close> seconds, or when the expiry in milliseconds added to the
  server's clock (milliseconds since the epoch, \<open>now\<close>) exceeds
  \<open>LLONG_MAX\<close>.
\<close>

record entry =
  payload :: string
  pttl :: "nat option"

type_synonym redis = "string \<rightharpoonup> entry"

definition redis_get :: "redis \<Rightarrow> string \<Rightarrow> string option" where
  "redis_get r k = map_option payload (r k)"

definition redis_exists :: "redis \<Rightarrow> string \<Rightarrow> bool" where
  "redis_exists r k = (r k \<noteq> None)"

definition redis_delete :: "redis \<Rightarrow> string \<Rightarrow> redis" where
  "redis_delete r k = r(k := None)"

definition redis_ttl :: "redis \<Rightarrow> string \<Rightarrow> int" where
  "redis_ttl r k =
     (case r k of
        None \<Rightarrow> - 2
      | Some e \<Rightarrow> (case pttl e of None \<Rightarrow> - 1 | Some ms \<Rightarrow> int ((ms + 500) div 1000)))"

definition LLONG_MAX :: int where
  "LLONG_MAX = 9223372036854775807"

definition redis_set ::
  "nat \<Rightarrow> redis \<Rightarrow> string \<Rightarrow> string option \<Rightarrow> int option \<Rightarrow> exn + redis" where
  "redis_set now r k v expire =
     (case v of
        None \<Rightarrow> Inl TypeError
      | Some s \<Rightarrow>
          (case expire of
             None \<Rightarrow> Inr (r(k \<mapsto> \<lparr>payload = s, pttl = None\<rparr>))
           | Some e \<Rightarrow>
               if e = 0 then Inr (r(k \<mapsto> \<lparr>payload = s, pttl = None\<rparr>))
               else if e < 0 then Inl ReplyError
               else if LLONG_MAX div 1000 < e then Inl ReplyError
               else if LLONG_MAX - int now < e * 1000 then Inl ReplyError
               else Inr (r(k \<mapsto> \<lparr>payload = s, pttl = Some (nat e * 1000)\<rparr>))))"

text \<open>The passage of \<open>n\<close> milliseconds: keys whose lifetime runs out disappear.\<close>

definition elapse :: "nat \<Rightarrow> redis \<Rightarrow> redis" where
  "elapse n r =
     (\<lambda>k. case r k of
            None \<Rightarrow> None
          | Some e \<Rightarrow>
              (case pttl e of
                 None \<Rightarrow> Some e
               | Some ms \<Rightarrow> if ms \<le> n then None else Some (e\<lparr>pttl := Some (ms - n)\<rparr>)))"

section \<open>Token lifecycle: expiry query\<close>

text \<open>\<open>utils.has_token_expired(redis, access_token_key)\<close>.\<close>

definition has_token_expired :: "redis \<Rightarrow> string \<Rightarrow> exn + bool" where
  "has_token_expired r access_token_key =
     (let ttl = redis_ttl r access_token_key in
      if ttl = - 2 then Inl (KeyError (''Key '' @ access_token_key @ '' does not exist''))
      else if ttl = - 1 then Inr False
      else Inr (ttl \<le> 0))"

section \<open>Base64 and the PKCE strings\<close>

text \<open>
  \<open>base64.urlsafe_b64encode\<close>: three bytes become four characters of the
  URL-safe alphabet; a last group of one or two bytes is padded with \<open>=\<close>.
\<close>

type_synonym byte = "8 word"

definition urlsafe_alphabet :: string where
  "urlsafe_alphabet =
     ''ABCDEFGHIJKLMNOPQRSTUVWXYZabcdefghijklmnopqrstuvwxyz0123456789-_''"

definition b64char :: "nat \<Rightarrow> char" where
  "b64char i = urlsafe_alphabet ! i"

fun urlsafe_b64encode :: "byte list \<Rightarrow> string" where
  "urlsafe_b64encode [] = []"
| "urlsafe_b64encode [a] =
     [b64char (unat a div 4), b64char (unat a mod 4 * 16), CHR ''='', CHR ''='']"
| "urlsafe_b64encode [a, b] =
     [b64char (unat a div 4), b64char (unat a mod 4 * 16 + unat b div 16),
      b64char (unat b mod 16 * 4), CHR ''='']"
| "urlsafe_b64encode (a # b # c # rest) =
     [b64char (unat a div 4), b64char (unat a mod 4 * 16 + unat b div 16),
      b64char (unat b mod 16 * 4 + unat c div 64), b64char (unat c mod 64)]
     @ urlsafe_b64encode rest"

text \<open>The characters \<open>re.sub('[^a-zA-Z0-9]+', '', s)\<close> keeps.\<close>

definition alnum :: "char \<Rightarrow> bool" where
  "alnum c =
     (let n = (of_char c :: nat)
      in (97 \<le> n \<and> n \<le> 122) \<or> (65 \<le> n \<and> n \<le> 90) \<or> (48 \<le> n \<and> n \<le> 57))"

text \<open>
  \<open>utils.get_code_verifier()\<close>; the argument is the result of
  \<open>os.urandom(40)\<close>.
\<close>

definition get_code_verifier :: "byte list \<Rightarrow> string" where
  "get_code_verifier urandom = filter alnum (urlsafe_b64encode urandom)"

definition generate_state :: "byte list \<Rightarrow> string" where
  "generate_state urandom = get_code_verifier urandom"

text \<open>
  \<open>utils.get_code_challenge(code_verifier)\<close>.
  \<open>hashlib.sha256(...).digest()\<close> is the parameter \<open>sha256\<close>;
  \<open>encode('utf-8')\<close> reads the string as its bytes.
\<close>

definition encode_utf8 :: "string \<Rightarrow> byte list" where
  "encode_utf8 s = map of_char s"

definition get_code_challenge :: "(byte list \<Rightarrow> byte list) \<Rightarrow> string \<Rightarrow> string" where
  "get_code_challenge sha256 code_verifier =
     filter (\<lambda>c. c \<noteq> CHR ''='') (urlsafe_b64encode (sha256 (encode_utf8 code_verifier)))"

section \<open>Configuration (avanpost.py)\<close>

text \<open>
  The values \<open>avanpost.py\<close> reads from the configuration are fields of a
  record. Two of its texts go through \<open>str.format\<close>, whose result depends on
  the braces the configured text holds, and may be an exception (\<open>KeyError\<close>
  for an unknown field, \<open>ValueError\<close> for a single brace):
  \<^item> \<open>token_redirect_url a r\<close> is
    \<open>TOKEN_REDIRECT_URL.format(access_token=a, refresh_token=r)\<close>, a template
    the configuration holds as a whole;
  \<^item> \<open>issuer_formatted\<close> is what \<open>format\<close> makes of the issuer
    text when it holds a brace, given the keyword arguments of the call (see
    \<open>AUTHORIZATION_URL\<close> below).

  The two cache key templates are literals of the module.
\<close>

record config =
  issuer :: string
  issuer_formatted :: "(string \<times> string) list \<Rightarrow> exn + string"
  client_id :: string
  client_secret :: string
  scopes :: string
  authorization_redirect_url :: string
  token_redirect_url :: "string \<Rightarrow> string \<Rightarrow> exn + string"
  parma_ml_group_name :: string
  default_hash_algorithm :: string

text \<open>
  \<open>avanpost.AUTHORIZATION_URL\<close> is the issuer, pasted in by an f-string when the
  module loads, followed by the literal text of the template; \<open>views.login\<close>
  calls \<open>format\<close> on the whole. So the issuer text is scanned for replacement
  fields too. An issuer without braces comes out as it is. For one with braces the
  result of its part is the parameter \<open>issuer_formatted\<close>: the braces of the
  template's own text are balanced, so a field opened in the issuer and not closed there
  is never closed and \<open>format\<close> raises; otherwise the two parts are formatted
  independently. The values substituted for the five fields are not scanned again.
\<close>

definition issuer_part :: "config \<Rightarrow> string \<Rightarrow> string \<Rightarrow> exn + string" where
  "issuer_part cfg code_challenge state =
     (if CHR ''{'' \<notin> set (issuer cfg) \<and> CHR ''}'' \<notin> set (issuer cfg) then Inr (issuer cfg)
      else issuer_formatted cfg
             [(''scopes'', scopes cfg), (''redirect_url'', authorization_redirect_url cfg),
              (''code_challenge'', code_challenge), (''client_id'', client_id cfg),
              (''state'', state)])"

definition AUTHORIZATION_URL :: "config \<Rightarrow> string \<Rightarrow> string \<Rightarrow> exn + string" where
  "AUTHORIZATION_URL cfg code_challenge state =
     (case issuer_part cfg code_challenge state of
        Inl e \<Rightarrow> Inl e
      | Inr formatted_issuer \<Rightarrow>
          Inr (formatted_issuer @ ''/oauth2/authorize?response_type=code''
               @ ''&client_id='' @ client_id cfg
               @ ''&scope='' @ scopes cfg
               @ ''&redirect_uri='' @ authorization_redirect_url cfg
               @ ''&code_challenge_method=S256''
               @ ''&code_challenge='' @ code_challenge
               @ ''&state='' @ state))"

text \<open>\<open>CODE_VERIFIER_REDIS_KEY.format(state=state)\<close>.\<close>

definition CODE_VERIFIER_REDIS_KEY :: "string \<Rightarrow> string" where
  "CODE_VERIFIER_REDIS_KEY state = ''forest:sso:avanpost:code_verifier:'' @ state"

text \<open>
  \<open>TOKEN_REDIS_KEY\<close> is used as it stands, never through
  \<open>format\<close>: the placeholder is part of every key built from it.
\<close>

definition TOKEN_REDIS_KEY :: string where
  "TOKEN_REDIS_KEY = ''forest:sso:token:{access_token}''"

section \<open>The issuer and the state of the gateway\<close>

text \<open>
  The identity provider is a parameter: what its endpoints answer. The body of the token
  endpoint's reply is what aiohttp's \<open>response.json()\<close> makes of it: a reply
  whose content type is not JSON (it raises \<open>ContentTypeError\<close>), an empty
  body (it returns \<open>None\<close>), a text that is not JSON (it raises
  \<open>JSONDecodeError\<close> with a message), a JSON value that is not an object, or a
  JSON object. The state of the gateway is the
  cache, the clock of the cache server, and the log of every outbound call, in order, so
  that "no issuer call" and "one JWKS fetch" are statements about the log.
\<close>

datatype token_request =
    AuthorizationCode string string string string

datatype issuer_call =
    TokenPost token_request
  | RevocationPost string
  | JwksGet
  | UserinfoGet string

datatype token_body =
    NotDeclaredJson
  | EmptyBody
  | NotJson string
  | JsonNotObject
  | JsonDict token_response

record token_reply =
  token_status :: nat
  token_body :: token_body

record world =
  redis :: redis
  clock :: nat
  issuer_log :: "issuer_call list"

text \<open>A computation that may raise: it returns the exception or a value, and the state.\<close>

type_synonym ('s, 'a) prog = "'s \<Rightarrow> (exn + 'a) \<times> 's"

definition ok :: "'a \<Rightarrow> ('s, 'a) prog" where
  "ok x = (\<lambda>s. (Inr x, s))"

definition raise :: "exn \<Rightarrow> ('s, 'a) prog" where
  "raise e = (\<lambda>s. (Inl e, s))"

definition andthen :: "('s, 'a) prog \<Rightarrow> ('a \<Rightarrow> ('s, 'b) prog) \<Rightarrow> ('s, 'b) prog" where
  "andthen m f = (\<lambda>s. case m s of (Inl e, s') \<Rightarrow> (Inl e, s') | (Inr x, s') \<Rightarrow> f x s')"

definition py_assert :: "bool \<Rightarrow> ('s, unit) prog" where
  "py_assert b = (if b then ok () else raise AssertionError)"

text \<open>The cache operations on the state.\<close>

definition cache_get :: "string \<Rightarrow> (world, string option) prog" where
  "cache_get k = (\<lambda>w. (Inr (redis_get (redis w) k), w))"

definition cache_exists :: "string \<Rightarrow> (world, bool) prog" where
  "cache_exists k = (\<lambda>w. (Inr (redis_exists (redis w) k), w))"

definition cache_delete :: "string \<Rightarrow> (world, unit) prog" where
  "cache_delete k = (\<lambda>w. (Inr (), w\<lparr>redis := redis_delete (redis w) k\<rparr>))"

definition cache_set :: "string \<Rightarrow> string option \<Rightarrow> int option \<Rightarrow> (world, unit) prog" where
  "cache_set k v expire =
     (\<lambda>w. case redis_set (clock w) (redis w) k v expire of
             Inl e \<Rightarrow> (Inl e, w)
           | Inr r \<Rightarrow> (Inr (), w\<lparr>redis := r\<rparr>))"

definition issuer_called :: "issuer_call \<Rightarrow> (world, unit) prog" where
  "issuer_called c = (\<lambda>w. (Inr (), w\<lparr>issuer_log := issuer_log w @ [c]\<rparr>))"

section \<open>PKCE flow and token store (utils.py, views.py)\<close>

text \<open>\<open>utils.set_code_verifier\<close>: \<open>set\<close> with no \<open>expire\<close> argument (its default is 0).\<close>

definition set_code_verifier :: "string \<Rightarrow> string \<Rightarrow> (world, unit) prog" where
  "set_code_verifier code_verifier state =
     (let code_verifier_key = CODE_VERIFIER_REDIS_KEY state in
      andthen (cache_set code_verifier_key (Some code_verifier) (Some 0)) (\<lambda>_.
      andthen (cache_exists code_verifier_key) (\<lambda>present.
      py_assert present)))"

definition revoke_code_verifier :: "string option \<Rightarrow> (world, unit) prog" where
  "revoke_code_verifier state =
     (let code_verifier_key = CODE_VERIFIER_REDIS_KEY (py_str state) in
      andthen (cache_delete code_verifier_key) (\<lambda>_.
      andthen (cache_exists code_verifier_key) (\<lambda>present.
      py_assert (\<not> present))))"

text \<open>
  \<open>utils.set_access_token\<close> and \<open>utils.set_refresh_token\<close>. The
  debug line formats the token with \<open>:.50\<close>, which raises
  \<open>TypeError\<close> for \<open>None\<close>.
\<close>

definition set_access_token :: "string option \<Rightarrow> int option \<Rightarrow> (world, unit) prog" where
  "set_access_token access_tok expires =
     (if access_tok = None then raise TypeError
      else cache_set TOKEN_REDIS_KEY access_tok expires)"

definition set_refresh_token :: "string option \<Rightarrow> string option \<Rightarrow> (world, unit) prog" where
  "set_refresh_token access_tok refresh_tok =
     (if refresh_tok = None then raise TypeError
      else
        (let access_token_key = TOKEN_REDIS_KEY @ '':'' @ py_str access_tok in
         cache_set access_token_key refresh_tok (Some 0)))"

text \<open>
  \<open>utils.json_or_raise_for_status\<close>: only \<open>JSONDecodeError\<close> is
  caught, and \<open>response_dict.get\<close> raises \<open>AttributeError\<close> when
  the reply is \<open>None\<close> or any JSON value but an object. Then
  \<open>utils.request_exchange\<close>.
\<close>

definition json_or_raise_for_status :: "token_reply \<Rightarrow> exn + token_response" where
  "json_or_raise_for_status response =
     (case token_body response of
        NotDeclaredJson \<Rightarrow> Inl ContentTypeError
      | NotJson msg \<Rightarrow> Inl (HTTPBadRequest (Reason msg))
      | EmptyBody \<Rightarrow> Inl AttributeError
      | JsonNotObject \<Rightarrow> Inl AttributeError
      | JsonDict response_dict \<Rightarrow>
          if truthy (access_token response_dict) then Inr response_dict
          else if error response_dict \<noteq> None then Inl (HTTPBadRequest (ReasonDict response_dict))
          else if 400 \<le> token_status response then Inl (ClientResponseError (token_status response))
          else Inr response_dict)"

definition request_exchange ::
  "config \<Rightarrow> (token_request \<Rightarrow> token_reply) \<Rightarrow> string \<Rightarrow> string option
     \<Rightarrow> (world, token_response) prog" where
  "request_exchange cfg token_endpoint pkce_code code_verifier =
     (let req = AuthorizationCode (client_id cfg) (authorization_redirect_url cfg)
                  pkce_code (py_str code_verifier) in
      andthen (issuer_called (TokenPost req)) (\<lambda>_.
      case json_or_raise_for_status (token_endpoint req) of
        Inl e \<Rightarrow> raise e
      | Inr response_dict \<Rightarrow> ok response_dict))"

definition exchange_code_for_token ::
  "config \<Rightarrow> (token_request \<Rightarrow> token_reply) \<Rightarrow> string \<Rightarrow> string option
     \<Rightarrow> (world, token_response) prog" where
  "exchange_code_for_token cfg token_endpoint pkce_code code_verifier =
     request_exchange cfg token_endpoint pkce_code code_verifier"

text \<open>
  \<open>views.login(request)\<close>. The two arguments \<open>urandom1\<close>,
  \<open>urandom2\<close> are the results of the two calls of
  \<open>os.urandom(40)\<close>. The view raises \<open>HTTPFound\<close>, or what
  formatting the URL raises.
\<close>

definition login ::
  "config \<Rightarrow> (byte list \<Rightarrow> byte list) \<Rightarrow> byte list \<Rightarrow> byte list \<Rightarrow> (world, response) prog" where
  "login cfg sha256 urandom1 urandom2 =
     (let state = generate_state urandom1;
          code_verifier = get_code_verifier urandom2 in
      andthen (set_code_verifier code_verifier state) (\<lambda>_.
      case AUTHORIZATION_URL cfg (get_code_challenge sha256 code_verifier) state of
        Inl e \<Rightarrow> raise e
      | Inr url \<Rightarrow> raise (HTTPFound url)))"

text \<open>
  \<open>views.sso_callback(request)\<close>; \<open>code\<close> and \<open>state\<close>
  are \<open>request.query.get('code')\<close> and
  \<open>request.query.get('state')\<close>.
\<close>

definition sso_callback ::
  "config \<Rightarrow> (token_request \<Rightarrow> token_reply) \<Rightarrow> string option \<Rightarrow> string option
     \<Rightarrow> (world, response) prog" where
  "sso_callback cfg token_endpoint code state =
     (let code_verifier_key = CODE_VERIFIER_REDIS_KEY (py_str state) in
      andthen (cache_get code_verifier_key) (\<lambda>code_verifier.
      if \<not> truthy code then raise (HTTPBadRequest (Reason ''PKCE code required''))
      else
      andthen (exchange_code_for_token cfg token_endpoint (py_str code) code_verifier)
        (\<lambda>response_dict.
      let access_tok = access_token response_dict;
          refresh_tok = refresh_token response_dict in
      andthen (revoke_code_verifier state) (\<lambda>_.
      andthen (set_access_token access_tok (expires_in response_dict)) (\<lambda>_.
      andthen (set_refresh_token access_tok refresh_tok) (\<lambda>_.
      andthen (cache_exists (TOKEN_REDIS_KEY @ '':'' @ py_str access_tok)) (\<lambda>present.
      andthen (py_assert present) (\<lambda>_.
      case token_redirect_url cfg (py_str access_tok) (py_str refresh_tok) of
        Inl e \<Rightarrow> raise e
      | Inr url \<Rightarrow> ok (Found url)))))))))"

text \<open>
  \<open>views.logout(request)\<close>; \<open>sso_token\<close> is
  \<open>request['sso_token']\<close>, and \<open>revoke_endpoint\<close> gives the status
  of the issuer's answer to the revocation call.
\<close>

definition logout :: "config \<Rightarrow> (string \<Rightarrow> nat) \<Rightarrow> string \<Rightarrow> (world, response) prog" where
  "logout cfg revoke_endpoint sso_token =
     (let token_key = TOKEN_REDIS_KEY @ '':'' @ sso_token in
      andthen (cache_get token_key) (\<lambda>token.
      case token of
        None \<Rightarrow> raise TokenAlreadyRevoked
      | Some tok \<Rightarrow>
          andthen (issuer_called (RevocationPost tok)) (\<lambda>_.
          if revoke_endpoint tok \<noteq> 200 then raise ValueError
          else
          andthen (cache_exists token_key) (\<lambda>present.
          andthen (py_assert present) (\<lambda>_.
          andthen (cache_delete token_key) (\<lambda>_.
          andthen (cache_exists token_key) (\<lambda>still.
          andthen (py_assert (\<not> still)) (\<lambda>_.
          ok NoContent))))))))"

text \<open>
  \<open>utils.is_revoked(request, token)\<close>: the body awaits \<open>exists\<close>
  and has no \<open>return\<close>, so the call evaluates to \<open>None\<close>. The
  result type is Python's: \<open>None\<close> or a boolean.
\<close>

definition is_revoked :: "string \<Rightarrow> (world, bool option) prog" where
  "is_revoked token =
     andthen (cache_exists (TOKEN_REDIS_KEY @ '':'' @ token)) (\<lambda>_. ok None)"

section \<open>JSON values and the permission check\<close>

text \<open>
  The claims of a decoded token are a JSON object; a Python \<open>dict\<close> is an
  association list here, and \<open>d.get(k)\<close> is \<open>None\<close> (JSON null)
  for a missing key.
\<close>

datatype jval =
    JNull
  | JBool bool
  | JNum int
  | JStr string
  | JList "jval list"
  | JDict "(string \<times> jval) list"

type_synonym claims = "(string \<times> jval) list"

definition py_get :: "(string \<times> jval) list \<Rightarrow> string \<Rightarrow> jval" where
  "py_get d k = (case map_of d k of None \<Rightarrow> JNull | Some v \<Rightarrow> v)"

text \<open>
  What a \<open>for\<close> over a value yields: the elements of a list, the characters of a
  string, the keys of a dict; \<open>None\<close>, booleans and numbers are not iterable.
\<close>

fun py_iter :: "jval \<Rightarrow> exn + jval list" where
  "py_iter (JList xs) = Inr xs"
| "py_iter (JStr s) = Inr (map (\<lambda>c. JStr [c]) s)"
| "py_iter (JDict d) = Inr (map (\<lambda>kv. JStr (fst kv)) d)"
| "py_iter JNull = Inl TypeError"
| "py_iter (JBool b) = Inl TypeError"
| "py_iter (JNum n) = Inl TypeError"

text \<open>
  \<open>any(group.get('name') == NAME for group in groups)\<close>: \<open>any\<close>
  stops at the first true element; \<open>group.get\<close> raises
  \<open>AttributeError\<close> on a value that is not a dict.
\<close>

fun any_group_named :: "string \<Rightarrow> jval list \<Rightarrow> exn + bool" where
  "any_group_named name [] = Inr False"
| "any_group_named name (JDict d # groups) =
     (if py_get d ''name'' = JStr name then Inr True else any_group_named name groups)"
| "any_group_named name (g # groups) = Inl AttributeError"

text \<open>\<open>utils.has_permissions(token)\<close>.\<close>

definition has_permissions :: "config \<Rightarrow> claims \<Rightarrow> exn + bool" where
  "has_permissions cfg token =
     (case py_iter (py_get token ''groups'') of
        Inl e \<Rightarrow> Inl e
      | Inr groups \<Rightarrow> any_group_named (parma_ml_group_name cfg) groups)"

section \<open>JWT verification (utils.py)\<close>

text \<open>
  PyJWT is a parameter: \<open>unverified_kid token\<close> is
  \<open>jwt.get_unverified_header(token)['kid']\<close> (or the exception it raises),
  \<open>from_jwk\<close> is \<open>RSAAlgorithm.from_jwk\<close>, and \<open>jwt_decode
  token key algorithms issuer audience\<close> is \<open>jwt.decode\<close>. The issuer's
  JWKS and userinfo endpoints are parameters too.
\<close>

record jwk =
  kid :: string
  material :: string

type_synonym pubkey = string

record pyjwt =
  unverified_kid :: "string \<Rightarrow> exn + string"
  from_jwk :: "jwk \<Rightarrow> exn + pubkey"
  jwt_decode :: "string \<Rightarrow> pubkey \<Rightarrow> string list \<Rightarrow> string \<Rightarrow> jval \<Rightarrow> exn + claims"

record jwks_reply =
  jwks_status :: nat
  jwks_keys :: "jwk list"

record userinfo_reply =
  userinfo_status :: nat
  userinfo_body :: "(string \<times> jval) list"

text \<open>\<open>response.raise_for_status()\<close>.\<close>

definition raise_for_status :: "nat \<Rightarrow> ('s, unit) prog" where
  "raise_for_status status = (if 400 \<le> status then raise (ClientResponseError status) else ok ())"

definition of_result :: "exn + 'a \<Rightarrow> ('s, 'a) prog" where
  "of_result x = (case x of Inl e \<Rightarrow> raise e | Inr v \<Rightarrow> ok v)"

text \<open>\<open>d[k]\<close> on a dict: \<open>KeyError\<close> for a missing key.\<close>

definition subscript :: "(string \<rightharpoonup> 'a) \<Rightarrow> string \<Rightarrow> ('s, 'a) prog" where
  "subscript d k = (case d k of None \<Rightarrow> raise (KeyError k) | Some v \<Rightarrow> ok v)"

definition request_json_web_keys :: "jwks_reply \<Rightarrow> (world, jwk list) prog" where
  "request_json_web_keys jwks_endpoint =
     andthen (issuer_called JwksGet) (\<lambda>_.
     andthen (raise_for_status (jwks_status jwks_endpoint)) (\<lambda>_.
     ok (jwks_keys jwks_endpoint)))"

definition request_token_info ::
  "(string \<Rightarrow> userinfo_reply) \<Rightarrow> string \<Rightarrow> (world, (string \<times> jval) list) prog" where
  "request_token_info userinfo_endpoint token =
     andthen (issuer_called (UserinfoGet token)) (\<lambda>_.
     andthen (raise_for_status (userinfo_status (userinfo_endpoint token))) (\<lambda>_.
     ok (userinfo_body (userinfo_endpoint token))))"

text \<open>
  \<open>utils.request_public_key(token)\<close>. The dict comprehension keeps the last
  key of each \<open>kid\<close>.
\<close>

definition request_public_key :: "pyjwt \<Rightarrow> jwks_reply \<Rightarrow> string \<Rightarrow> (world, pubkey) prog" where
  "request_public_key lib jwks_endpoint token =
     andthen (request_json_web_keys jwks_endpoint) (\<lambda>jwks.
     let keys = map_of (rev (map (\<lambda>j. (kid j, j)) jwks)) in
     andthen (of_result (unverified_kid lib token)) (\<lambda>k.
     andthen (subscript keys k) (\<lambda>j.
     of_result (from_jwk lib j))))"

text \<open>
  \<open>utils.get_public_key(token)\<close>: the variant built on
  \<open>requests\<close>. Every key of the set is parsed before the lookup.
\<close>

fun parse_keys :: "(jwk \<Rightarrow> exn + pubkey) \<Rightarrow> jwk list \<Rightarrow> (string \<rightharpoonup> pubkey)
    \<Rightarrow> exn + (string \<rightharpoonup> pubkey)" where
  "parse_keys parse [] public_keys = Inr public_keys"
| "parse_keys parse (j # js) public_keys =
     (case parse j of
        Inl e \<Rightarrow> Inl e
      | Inr key \<Rightarrow> parse_keys parse js (public_keys(kid j \<mapsto> key)))"

definition get_public_key :: "pyjwt \<Rightarrow> jwks_reply \<Rightarrow> string option \<Rightarrow> (world, pubkey) prog" where
  "get_public_key lib jwks_endpoint token =
     andthen (issuer_called JwksGet) (\<lambda>_.
     andthen (py_assert (jwks_status jwks_endpoint = 200)) (\<lambda>_.
     andthen (of_result (parse_keys (from_jwk lib) (jwks_keys jwks_endpoint) Map.empty))
       (\<lambda>public_keys.
     if \<not> truthy token then subscript public_keys ''1''
     else
     andthen (of_result (unverified_kid lib (py_str token))) (\<lambda>k.
     subscript public_keys k))))"

text \<open>\<open>utils.decode_avanpost_jwt(token)\<close>.\<close>

definition decode_avanpost_jwt ::
  "config \<Rightarrow> pyjwt \<Rightarrow> (string \<Rightarrow> userinfo_reply) \<Rightarrow> jwks_reply \<Rightarrow> string
     \<Rightarrow> (world, claims) prog" where
  "decode_avanpost_jwt cfg lib userinfo_endpoint jwks_endpoint token =
     (let algorithms = [default_hash_algorithm cfg] in
      andthen (request_token_info userinfo_endpoint token) (\<lambda>info.
      andthen (request_public_key lib jwks_endpoint token) (\<lambda>public_key.
      andthen (subscript (map_of info) ''aud'') (\<lambda>aud.
      of_result (jwt_decode lib token public_key algorithms (issuer cfg) aud)))))"

section \<open>The authentication middleware (middleware.py)\<close>

text \<open>
  The stages of the request pipeline, by the names the specification gives them. The model
  records each stage as the code enters the lines that implement it: the
  \<open>OPTIONS\<close> and whitelist tests (WHITELIST_CHECK), the call of
  \<open>token_getter\<close> (TOKEN_EXTRACT), \<open>decode_avanpost_jwt\<close>
  (TOKEN_VERIFY), the \<open>is_revoked\<close> test (REVOCATION_CHECK), each assignment
  to \<open>request[...]\<close> (CONTEXT_ATTACH), the call of
  \<open>has_permissions\<close> (PERMISSION_CHECK) and the call of the handler
  (DELEGATE).
\<close>

datatype stage =
    START
  | WHITELIST_CHECK
  | TOKEN_EXTRACT
  | TOKEN_VERIFY
  | REVOCATION_CHECK
  | PERMISSION_CHECK
  | CONTEXT_ATTACH
  | DELEGATE

datatype item = Claims claims | RawToken string

record request =
  http_method :: string
  path :: string
  authorization :: "string option"

record mw_state =
  app :: world
  items :: "string \<rightharpoonup> item"
  trace :: "stage list"

text \<open>
  The arguments of \<open>AvanpostJWTMiddleware\<close> the request path reads.
  \<open>whitelisted\<close> is \<open>check_request(request, whitelist)\<close>;
  \<open>token_getter\<close> and \<open>is_revoked_arg\<close> are \<open>None\<close> or
  a callable; \<open>store_token\<close> is \<open>False\<close> (here
  \<open>None\<close>) or a key.
\<close>

record options =
  request_property :: string
  whitelisted :: "request \<Rightarrow> bool"
  token_getter :: "(request \<Rightarrow> exn + string option) option"
  is_revoked_arg :: "(request \<Rightarrow> string \<Rightarrow> (world, bool option) prog) option"
  store_token :: "string option"

definition enter :: "stage \<Rightarrow> (mw_state, unit) prog" where
  "enter st = (\<lambda>s. (Inr (), s\<lparr>trace := trace s @ [st]\<rparr>))"

definition in_app :: "(world, 'a) prog \<Rightarrow> (mw_state, 'a) prog" where
  "in_app m = (\<lambda>s. case m (app s) of (res, w) \<Rightarrow> (res, s\<lparr>app := w\<rparr>))"

definition set_item :: "string \<Rightarrow> item \<Rightarrow> (mw_state, unit) prog" where
  "set_item k v = (\<lambda>s. (Inr (), s\<lparr>items := (items s)(k \<mapsto> v)\<rparr>))"

definition get_items :: "(mw_state, string \<rightharpoonup> item) prog" where
  "get_items = (\<lambda>s. (Inr (items s), s))"

text \<open>\<open>try: ... except jwt.InvalidTokenError as exc: raise web.HTTPUnauthorized(...)\<close>.\<close>

definition except_invalid_token :: "('s, 'a) prog \<Rightarrow> ('s, 'a) prog" where
  "except_invalid_token m =
     (\<lambda>s. case m s of
             (Inl (InvalidTokenError msg), s') \<Rightarrow>
               (Inl (HTTPUnauthorized (''Invalid authorization token, '' @ msg)), s')
           | other \<Rightarrow> other)"

text \<open>\<open>await handler(request)\<close>: the handler sees the request and what is attached to it.\<close>

definition delegate ::
  "(request \<Rightarrow> (string \<rightharpoonup> item) \<Rightarrow> (world, response) prog) \<Rightarrow> request
     \<Rightarrow> (mw_state, response) prog" where
  "delegate handler req =
     andthen (enter DELEGATE) (\<lambda>_.
     andthen get_items (\<lambda>attached.
     in_app (handler req attached)))"

text \<open>\<open>callable(is_revoked) and await invoke(partial(is_revoked, request, token))\<close>.\<close>

definition revoked_test :: "options \<Rightarrow> request \<Rightarrow> string \<Rightarrow> (mw_state, bool) prog" where
  "revoked_test opts req token =
     (case is_revoked_arg opts of
        None \<Rightarrow> ok False
      | Some f \<Rightarrow> andthen (in_app (f req token)) (\<lambda>res. ok (res = Some True)))"

definition jwt_middleware ::
  "config \<Rightarrow> pyjwt \<Rightarrow> (string \<Rightarrow> userinfo_reply) \<Rightarrow> jwks_reply \<Rightarrow> options \<Rightarrow> request
     \<Rightarrow> (request \<Rightarrow> (string \<rightharpoonup> item) \<Rightarrow> (world, response) prog)
     \<Rightarrow> (mw_state, response) prog" where
  "jwt_middleware cfg lib userinfo_endpoint jwks_endpoint opts req handler =
     andthen (enter START) (\<lambda>_.
     andthen (enter WHITELIST_CHECK) (\<lambda>_.
     if http_method req = ''OPTIONS'' then delegate handler req
     else if whitelisted opts req then delegate handler req
     else
     andthen (enter TOKEN_EXTRACT) (\<lambda>_.
     andthen (case token_getter opts of
                None \<Rightarrow> raise TypeError
              | Some getter \<Rightarrow> of_result (getter req)) (\<lambda>token.
     if \<not> truthy token then raise (HTTPUnauthorized ''Missing authorization token'')
     else
     andthen (enter TOKEN_VERIFY) (\<lambda>_.
     andthen (except_invalid_token
                (in_app (decode_avanpost_jwt cfg lib userinfo_endpoint jwks_endpoint
                           (py_str token)))) (\<lambda>decoded.
     andthen (enter REVOCATION_CHECK) (\<lambda>_.
     andthen (revoked_test opts req (py_str token)) (\<lambda>revoked.
     if revoked then raise (HTTPForbidden ''Token is revoked'')
     else
     andthen (enter CONTEXT_ATTACH) (\<lambda>_.
     andthen (set_item (request_property opts) (Claims decoded)) (\<lambda>_.
     andthen (enter PERMISSION_CHECK) (\<lambda>_.
     andthen (of_result (has_permissions cfg decoded)) (\<lambda>permitted.
     if \<not> permitted then raise (HTTPForbidden ''You have no rights to access the page.'')
     else
     andthen (if truthy (store_token opts)
              then andthen (enter CONTEXT_ATTACH) (\<lambda>_.
                   set_item (py_str (store_token opts)) (RawToken (py_str token)))
              else ok ()) (\<lambda>_.
     delegate handler req)))))))))))))"

section \<open>The specification's reading of the challenge\<close>

text \<open>
  Two definitions that follow the specification's words, to compare the code with.
  The first is base64url without padding as RFC 4648 describes it: each group of three
  bytes is a 24-bit number read as four 6-bit digits; a last group of one byte (two
  bytes) is extended with zero bits to 12 (18) bits and read as two (three) digits; no
  pad character is written.
\<close>

fun base64url_nopad :: "byte list \<Rightarrow> string" where
  "base64url_nopad [] = []"
| "base64url_nopad [a] =
     (let n = unat a * 16
      in [b64char (n div 64 mod 64), b64char (n mod 64)])"
| "base64url_nopad [a, b] =
     (let n = (unat a * 256 + unat b) * 4
      in [b64char (n div 4096 mod 64), b64char (n div 64 mod 64), b64char (n mod 64)])"
| "base64url_nopad (a # b # c # rest) =
     (let n = unat a * 65536 + unat b * 256 + unat c
      in [b64char (n div 262144 mod 64), b64char (n div 4096 mod 64),
          b64char (n div 64 mod 64), b64char (n mod 64)])
     @ base64url_nopad rest"

text \<open>
  The second is the query parameter of a URL as its receiver reads it: the query is what
  follows the first \<open>?\<close>, its fields are separated by \<open>&\<close>, and
  the value of a parameter is what follows \<open>name=\<close> in the first field that
  starts so.
\<close>

definition url_query :: "string \<Rightarrow> string" where
  "url_query url = drop 1 (dropWhile (\<lambda>c. c \<noteq> CHR ''?'') url)"

fun split_on :: "char \<Rightarrow> string \<Rightarrow> string list" where
  "split_on sep [] = [[]]"
| "split_on sep (x # xs) =
     (if x = sep then [] # split_on sep xs
      else (case split_on sep xs of [] \<Rightarrow> [[x]] | p # ps \<Rightarrow> (x # p) # ps))"

definition query_param :: "string \<Rightarrow> string \<Rightarrow> string option" where
  "query_param name url =
     (case filter (\<lambda>p. take (length name + 1) p = name @ ''='')
             (split_on CHR ''&'' (url_query url)) of
        [] \<Rightarrow> None
      | p # _ \<Rightarrow> Some (drop (length name + 1) p))"

section \<open>A stub deployment\<close>

text \<open>
  Concrete values for the scenarios: a configuration, the token endpoint of an issuer that
  answers every request with \<open>AT1\<close>, \<open>RT1\<close> and \<open>expires_in
  = 3600\<close>, and a gateway with an empty cache that has called nobody.
\<close>

definition stub_config :: config where
  "stub_config =
     \<lparr>issuer = ''https://idp'', issuer_formatted = (\<lambda>kwargs. Inl ValueError),
      client_id = ''gateway'', client_secret = ''s3cret'',
      scopes = ''openid'', authorization_redirect_url = ''https://gw/callback'',
      token_redirect_url =
        (\<lambda>a r. Inr (''https://ui/?access_token='' @ a @ ''&refresh_token='' @ r)),
      parma_ml_group_name = ''parma-ml'', default_hash_algorithm = ''RS256''\<rparr>"

text \<open>
  The same deployment with the issuer \<open>https://idp/{x}\<close>: \<open>format\<close>
  looks the field \<open>x\<close> up in its keyword arguments.
\<close>

definition templated_config :: config where
  "templated_config =
     stub_config\<lparr>issuer := ''https://idp/{x}'',
       issuer_formatted := (\<lambda>kwargs. case map_of kwargs ''x'' of
           None \<Rightarrow> Inl (KeyError ''x'') | Some v \<Rightarrow> Inr (''https://idp/'' @ v))\<rparr>"

definition stub_token_endpoint :: "token_request \<Rightarrow> token_reply" where
  "stub_token_endpoint req =
     \<lparr>token_status = 200,
      token_body = JsonDict \<lparr>access_token = Some ''AT1'', refresh_token = Some ''RT1'',
                         expires_in = Some 3600, error = None\<rparr>\<rparr>"

text \<open>
  The token endpoint of an issuer whose tokens live for \<open>10^16\<close> seconds, more
  than the cache server takes as an expiry.
\<close>

definition unending_token_endpoint :: "token_request \<Rightarrow> token_reply" where
  "unending_token_endpoint req =
     \<lparr>token_status = 200,
      token_body = JsonDict \<lparr>access_token = Some ''AT1'', refresh_token = Some ''RT1'',
                         expires_in = Some 10000000000000000, error = None\<rparr>\<rparr>"

text \<open>The token endpoint of an issuer that refuses every request.\<close>

definition refusing_token_endpoint :: "token_request \<Rightarrow> token_reply" where
  "refusing_token_endpoint req =
     \<lparr>token_status = 400,
      token_body = JsonDict \<lparr>access_token = None, refresh_token = None, expires_in = None,
                         error = Some ''invalid_grant''\<rparr>\<rparr>"

text \<open>A stand-in for SHA-256: 32 bytes, each the length of the message.\<close>

definition stub_digest :: "byte list \<Rightarrow> byte list" where
  "stub_digest bs = replicate 32 (of_nat (length bs))"

definition empty_world :: world where
  "empty_world = \<lparr>redis = Map.empty, clock = 1700000000000, issuer_log = []\<rparr>"

text \<open>The cache after a login that stored the verifier \<open>V1\<close> for the state \<open>S1\<close>.\<close>

definition pending_login :: world where
  "pending_login =
     \<lparr>redis = [CODE_VERIFIER_REDIS_KEY ''S1'' \<mapsto> \<lparr>payload = ''V1'', pttl = None\<rparr>],
      clock = 1700000000000, issuer_log = []\<rparr>"

text \<open>The cache as a successful callback for \<open>AT1\<close>, \<open>RT1\<close> leaves it.\<close>

definition issued :: world where
  "issued =
     \<lparr>redis = [TOKEN_REDIS_KEY \<mapsto> \<lparr>payload = ''AT1'', pttl = Some 3600000\<rparr>,
               TOKEN_REDIS_KEY @ '':AT1'' \<mapsto> \<lparr>payload = ''RT1'', pttl = None\<rparr>],
      clock = 1700000000000, issuer_log = []\<rparr>"

text \<open>
  A stub of PyJWT and of the issuer's JWKS and userinfo endpoints. The key set holds the
  one key \<open>1\<close>. The token \<open>garbage\<close> has no readable header,
  \<open>rotated\<close> names the key \<open>2\<close>, \<open>expired\<close> fails
  verification, \<open>member\<close> belongs to the required group,
  \<open>outsider\<close> to another one, and any other token decodes to claims without
  groups.
\<close>

definition stub_pyjwt :: pyjwt where
  "stub_pyjwt =
     \<lparr>unverified_kid = (\<lambda>tok.
        if tok = ''garbage'' then Inl (InvalidTokenError ''Not enough segments'')
        else if tok = ''rotated'' then Inr ''2'' else Inr ''1''),
      from_jwk = (\<lambda>j. Inr (material j)),
      jwt_decode = (\<lambda>tok key algorithms iss aud.
        if tok = ''expired'' then Inl (InvalidTokenError ''Signature has expired'')
        else if tok = ''member'' then
          Inr [(''sub'', JStr ''alice''),
               (''groups'', JList [JDict [(''name'', JStr ''parma-ml'')]])]
        else if tok = ''outsider'' then
          Inr [(''sub'', JStr ''bob''),
               (''groups'', JList [JDict [(''name'', JStr ''sales'')]])]
        else Inr [(''sub'', JStr ''carol'')])\<rparr>"

definition stub_jwks :: jwks_reply where
  "stub_jwks = \<lparr>jwks_status = 200, jwks_keys = [\<lparr>kid = ''1'', material = ''K1''\<rparr>]\<rparr>"

definition stub_userinfo :: "string \<Rightarrow> userinfo_reply" where
  "stub_userinfo tok = \<lparr>userinfo_status = 200, userinfo_body = [(''aud'', JStr ''gateway'')]\<rparr>"

text \<open>
  The middleware as the gateway would configure it: the token comes from the
  \<open>Authorization\<close> header, the revocation predicate is
  \<open>utils.is_revoked\<close>, and the raw token is stored under
  \<open>sso_token\<close>, where \<open>logout\<close> reads it.
\<close>

definition stub_options :: options where
  "stub_options =
     \<lparr>request_property = ''payload'',
      whitelisted = (\<lambda>r. path r = ''/login''),
      token_getter = Some (\<lambda>r. Inr (authorization r)),
      is_revoked_arg = Some (\<lambda>r. is_revoked),
      store_token = Some ''sso_token''\<rparr>"

definition bearer :: "string \<Rightarrow> request" where
  "bearer tok = \<lparr>http_method = ''GET'', path = ''/api'', authorization = Some tok\<rparr>"

definition stub_handler :: "request \<Rightarrow> (string \<rightharpoonup> item) \<Rightarrow> (world, response) prog" where
  "stub_handler r attached = ok (Handled (path r))"

definition fresh :: mw_state where
  "fresh = \<lparr>app = issued, items = Map.empty, trace = []\<rparr>"







section \<open>Facts about the cache\<close>

lemma redis_ttl_absent: "redis_ttl r k = - 2 \<longleftrightarrow> r k = None"
  by (simp add: redis_ttl_def split: option.splits)

lemma redis_ttl_no_expiry: "redis_ttl r k = - 1 \<longleftrightarrow> (\<exists>e. r k = Some e \<and> pttl e = None)"
  by (auto simp: redis_ttl_def split: option.splits)

lemma redis_set_no_expiry:
  "redis_set now r k (Some v) (Some 0) = Inr (r(k \<mapsto> \<lparr>payload = v, pttl = None\<rparr>))"
  by (simp add: redis_set_def)

lemma redis_set_accepted:
  assumes "0 \<le> e" and "e = 0 \<or> e * 1000 \<le> LLONG_MAX - int now"
  shows "redis_set now r k (Some v) (Some e) =
    Inr (r(k \<mapsto> \<lparr>payload = v, pttl = (if e = 0 then None else Some (nat e * 1000))\<rparr>))"
proof (cases "e = 0")
  case True
  then show ?thesis by (simp add: redis_set_def)
next
  case False
  with assms(2) have b: "e * 1000 \<le> LLONG_MAX - int now" by simp
  then have "e * 1000 \<le> LLONG_MAX" by linarith
  then have "\<not> LLONG_MAX div 1000 < e" unfolding LLONG_MAX_def by linarith
  then show ?thesis using assms(1) b False by (simp add: redis_set_def)
qed

lemma redis_set_refused:
  assumes "0 < e" and "LLONG_MAX - int now < e * 1000"
  shows "redis_set now r k (Some v) (Some e) = Inl ReplyError"
  using assms by (simp add: redis_set_def)

lemma redis_ttl_live: "r k = Some e \<Longrightarrow> pttl e = Some ms \<Longrightarrow> 0 \<le> redis_ttl r k"
  by (simp add: redis_ttl_def)

lemma elapse_no_expiry: "r k = Some e \<Longrightarrow> pttl e = None \<Longrightarrow> elapse n r k = Some e"
  by (simp add: elapse_def)

lemma token_keys_distinct:
  "TOKEN_REDIS_KEY @ CHR '':'' # at \<noteq> TOKEN_REDIS_KEY"
  "TOKEN_REDIS_KEY @ CHR '':'' # at \<noteq> CODE_VERIFIER_REDIS_KEY st"
  "TOKEN_REDIS_KEY \<noteq> CODE_VERIFIER_REDIS_KEY st"
  "TOKEN_REDIS_KEY \<noteq> TOKEN_REDIS_KEY @ CHR '':'' # at"
  "CODE_VERIFIER_REDIS_KEY st \<noteq> TOKEN_REDIS_KEY @ CHR '':'' # at"
  "CODE_VERIFIER_REDIS_KEY st \<noteq> TOKEN_REDIS_KEY"
  by (simp_all add: TOKEN_REDIS_KEY_def CODE_VERIFIER_REDIS_KEY_def)

section \<open>What each view does to the state\<close>

lemmas prog_defs = ok_def raise_def andthen_def py_assert_def cache_get_def cache_exists_def
  cache_delete_def cache_set_def issuer_called_def

lemma logout_result:
  "logout cfg revoke_endpoint t w =
    (case redis w (TOKEN_REDIS_KEY @ '':'' @ t) of
       None \<Rightarrow> (Inl TokenAlreadyRevoked, w)
     | Some e \<Rightarrow>
        if revoke_endpoint (payload e) \<noteq> 200
        then (Inl ValueError, w\<lparr>issuer_log := issuer_log w @ [RevocationPost (payload e)]\<rparr>)
        else (Inr NoContent,
              w\<lparr>issuer_log := issuer_log w @ [RevocationPost (payload e)],
                redis := redis_delete (redis w) (TOKEN_REDIS_KEY @ '':'' @ t)\<rparr>))"
  by (simp add: logout_def prog_defs redis_get_def redis_exists_def redis_delete_def Let_def
      split: option.splits)

lemma set_code_verifier_result:
  "set_code_verifier cv st w =
     (Inr (), w\<lparr>redis := (redis w)(CODE_VERIFIER_REDIS_KEY st \<mapsto> \<lparr>payload = cv, pttl = None\<rparr>)\<rparr>)"
  by (simp add: set_code_verifier_def prog_defs redis_set_no_expiry redis_exists_def Let_def)

lemma login_result:
  "login cfg sha u1 u2 w =
    ((case AUTHORIZATION_URL cfg (get_code_challenge sha (get_code_verifier u2))
             (generate_state u1) of
        Inl e \<Rightarrow> Inl e
      | Inr url \<Rightarrow> Inl (HTTPFound url)),
     w\<lparr>redis := (redis w)(CODE_VERIFIER_REDIS_KEY (generate_state u1) \<mapsto>
                    \<lparr>payload = get_code_verifier u2, pttl = None\<rparr>)\<rparr>)"
  by (simp add: login_def set_code_verifier_result Let_def andthen_def raise_def
      split: sum.splits)

lemma revoke_code_verifier_result:
  "revoke_code_verifier st w =
     (Inr (), w\<lparr>redis := redis_delete (redis w) (CODE_VERIFIER_REDIS_KEY (py_str st))\<rparr>)"
  by (simp add: revoke_code_verifier_def prog_defs redis_delete_def redis_exists_def Let_def)

lemma request_exchange_result:
  "request_exchange cfg ep c v w =
     (json_or_raise_for_status
        (ep (AuthorizationCode (client_id cfg) (authorization_redirect_url cfg) c (py_str v))),
      w\<lparr>issuer_log := issuer_log w @
          [TokenPost (AuthorizationCode (client_id cfg) (authorization_redirect_url cfg) c
             (py_str v))]\<rparr>)"
  by (simp add: request_exchange_def prog_defs Let_def split: sum.splits)

lemma sso_callback_no_code:
  "\<not> truthy code \<Longrightarrow>
   sso_callback cfg ep code st w = (Inl (HTTPBadRequest (Reason ''PKCE code required'')), w)"
  by (simp add: sso_callback_def prog_defs Let_def)

lemma sso_callback_exchange_fails:
  "truthy code \<Longrightarrow>
   json_or_raise_for_status (ep (AuthorizationCode (client_id cfg)
       (authorization_redirect_url cfg) (py_str code)
       (py_str (redis_get (redis w) (CODE_VERIFIER_REDIS_KEY (py_str st)))))) = Inl e \<Longrightarrow>
   sso_callback cfg ep code st w =
     (Inl e, w\<lparr>issuer_log := issuer_log w @
        [TokenPost (AuthorizationCode (client_id cfg) (authorization_redirect_url cfg)
           (py_str code)
           (py_str (redis_get (redis w) (CODE_VERIFIER_REDIS_KEY (py_str st)))))]\<rparr>)"
  by (simp add: sso_callback_def exchange_code_for_token_def request_exchange_result Let_def
       andthen_def cache_get_def)

lemma sso_callback_success:
  assumes "truthy code"
    and "json_or_raise_for_status (ep (AuthorizationCode (client_id cfg)
           (authorization_redirect_url cfg) (py_str code)
           (py_str (redis_get (redis w) (CODE_VERIFIER_REDIS_KEY (py_str st)))))) = Inr d"
    and "access_token d = Some at" and "refresh_token d = Some rt"
    and "expires_in d = Some e" and "0 \<le> e"
    and "e = 0 \<or> e * 1000 \<le> LLONG_MAX - int (clock w)"
  shows "sso_callback cfg ep code st w =
    ((case token_redirect_url cfg at rt of Inl x \<Rightarrow> Inl x | Inr url \<Rightarrow> Inr (Found url)),
     w\<lparr>issuer_log := issuer_log w @
          [TokenPost (AuthorizationCode (client_id cfg) (authorization_redirect_url cfg)
             (py_str code)
             (py_str (redis_get (redis w) (CODE_VERIFIER_REDIS_KEY (py_str st)))))],
       redis := (redis w)
         (CODE_VERIFIER_REDIS_KEY (py_str st) := None,
          TOKEN_REDIS_KEY \<mapsto>
            \<lparr>payload = at, pttl = (if e = 0 then None else Some (nat e * 1000))\<rparr>,
          TOKEN_REDIS_KEY @ '':'' @ at \<mapsto> \<lparr>payload = rt, pttl = None\<rparr>)\<rparr>)"
  using assms(1-5)
  by (simp add: sso_callback_def exchange_code_for_token_def request_exchange_result Let_def
       revoke_code_verifier_result set_access_token_def set_refresh_token_def
       prog_defs redis_set_no_expiry redis_set_accepted [OF assms(6,7)]
       redis_exists_def redis_delete_def py_str_def
      split: sum.splits)

text \<open>
  An expiry the cache server refuses: the callback ends with the server's error after it
  has deleted the state's entry, and stores neither token.
\<close>

lemma sso_callback_expiry_refused:
  assumes "truthy code"
    and "json_or_raise_for_status (ep (AuthorizationCode (client_id cfg)
           (authorization_redirect_url cfg) (py_str code)
           (py_str (redis_get (redis w) (CODE_VERIFIER_REDIS_KEY (py_str st)))))) = Inr d"
    and "access_token d = Some at"
    and "expires_in d = Some e" and "0 < e" and "LLONG_MAX - int (clock w) < e * 1000"
  shows "sso_callback cfg ep code st w =
    (Inl ReplyError,
     w\<lparr>issuer_log := issuer_log w @
          [TokenPost (AuthorizationCode (client_id cfg) (authorization_redirect_url cfg)
             (py_str code)
             (py_str (redis_get (redis w) (CODE_VERIFIER_REDIS_KEY (py_str st)))))],
       redis := (redis w)(CODE_VERIFIER_REDIS_KEY (py_str st) := None)\<rparr>)"
  using assms(1-4)
  by (simp add: sso_callback_def exchange_code_for_token_def request_exchange_result Let_def
       revoke_code_verifier_result set_access_token_def
       prog_defs redis_set_refused [OF assms(5,6)] redis_delete_def)

text \<open>
  Where the access token itself goes: \<open>set_access_token\<close> writes it, with the
  lifetime \<open>expires_in\<close>, under \<open>TOKEN_REDIS_KEY\<close> as it stands,
  whatever the token is.
\<close>

lemma sso_callback_access_token_entry:
  assumes "truthy code"
    and "json_or_raise_for_status (ep (AuthorizationCode (client_id cfg)
           (authorization_redirect_url cfg) (py_str code)
           (py_str (redis_get (redis w) (CODE_VERIFIER_REDIS_KEY (py_str st)))))) = Inr d"
    and "access_token d = Some at" and "refresh_token d = Some rt"
    and "expires_in d = Some e" and "0 < e"
    and "e = 0 \<or> e * 1000 \<le> LLONG_MAX - int (clock w)"
  shows "redis_get (redis (snd (sso_callback cfg ep code st w)))
           ''forest:sso:token:{access_token}'' = Some at"
    and "redis_ttl (redis (snd (sso_callback cfg ep code st w)))
           ''forest:sso:token:{access_token}'' = e"
proof -
  have e: "0 \<le> e" "e \<noteq> 0" using assms(6) by simp_all
  have k: "''forest:sso:token:{access_token}'' = TOKEN_REDIS_KEY"
    by (simp add: TOKEN_REDIS_KEY_def)
  have r: "(nat e * 1000 + 500) div 1000 = nat e" by simp
  show "redis_get (redis (snd (sso_callback cfg ep code st w)))
           ''forest:sso:token:{access_token}'' = Some at"
    unfolding k sso_callback_success [where ep = ep and cfg = cfg and code = code
        and st = st and w = w, OF assms(1-5) e(1) assms(7)]
    by (simp add: redis_get_def token_keys_distinct)
  show "redis_ttl (redis (snd (sso_callback cfg ep code st w)))
           ''forest:sso:token:{access_token}'' = e"
    unfolding k sso_callback_success [where ep = ep and cfg = cfg and code = code
        and st = st and w = w, OF assms(1-5) e(1) assms(7)]
    using e r by (simp add: redis_ttl_def token_keys_distinct)
qed

text \<open>
  Whatever the exchange returns, the callback's issuer traffic is the one exchange call,
  and the state's entry is absent whenever the callback returns a response.
\<close>

lemma sso_callback_issuer_log:
  "truthy code \<Longrightarrow>
   issuer_log (snd (sso_callback cfg ep code st w)) =
     issuer_log w @
       [TokenPost (AuthorizationCode (client_id cfg) (authorization_redirect_url cfg)
          (py_str code)
          (py_str (redis_get (redis w) (CODE_VERIFIER_REDIS_KEY (py_str st)))))]"
  by (simp add: sso_callback_def exchange_code_for_token_def request_exchange_result Let_def
       revoke_code_verifier_result set_access_token_def set_refresh_token_def
       prog_defs redis_set_def split: sum.splits option.splits)

lemma sso_callback_returns_deleted:
  "fst (sso_callback cfg ep code st w) = Inr resp \<Longrightarrow>
   redis (snd (sso_callback cfg ep code st w)) (CODE_VERIFIER_REDIS_KEY (py_str st)) = None"
  by (cases "truthy code")
     (auto simp add: sso_callback_def exchange_code_for_token_def request_exchange_result
       Let_def revoke_code_verifier_result set_access_token_def set_refresh_token_def
       prog_defs redis_set_def redis_delete_def token_keys_distinct
       split: sum.splits option.splits if_splits)

section \<open>Key lookup, verification and the middleware, case by case\<close>

lemmas mw_defs = jwt_middleware_def delegate_def revoked_test_def except_invalid_token_def
  enter_def in_app_def set_item_def get_items_def of_result_def ok_def raise_def andthen_def

lemma request_public_key_log:
  "issuer_log (snd (request_public_key lib jw token w)) = issuer_log w @ [JwksGet]"
  by (simp add: request_public_key_def request_json_web_keys_def raise_for_status_def
        of_result_def subscript_def prog_defs Let_def split: sum.splits option.splits)

lemma get_public_key_log:
  "issuer_log (snd (get_public_key lib jw token w)) = issuer_log w @ [JwksGet]"
  by (simp add: get_public_key_def raise_for_status_def
        of_result_def subscript_def prog_defs Let_def split: sum.splits option.splits)

lemma map_of_rev_None: "map_of (rev (map (\<lambda>j. (kid j, j)) js)) k = None \<longleftrightarrow> k \<notin> kid ` set js"
  by (simp add: map_of_eq_None_iff image_image)

lemma request_public_key_unknown_kid:
  "jwks_status jw < 400 \<Longrightarrow> unverified_kid lib token = Inr k \<Longrightarrow> k \<notin> kid ` set (jwks_keys jw) \<Longrightarrow>
   request_public_key lib jw token w = (Inl (KeyError k), w\<lparr>issuer_log := issuer_log w @ [JwksGet]\<rparr>)"
  using map_of_rev_None [of "jwks_keys jw" k]
  by (simp add: request_public_key_def request_json_web_keys_def raise_for_status_def
        of_result_def subscript_def prog_defs Let_def)

lemma decode_log:
  "issuer_log (snd (decode_avanpost_jwt cfg lib ui jw token w)) = issuer_log w @ [UserinfoGet token]
   \<or> issuer_log (snd (decode_avanpost_jwt cfg lib ui jw token w)) = issuer_log w @ [UserinfoGet token, JwksGet]"
  by (simp add: decode_avanpost_jwt_def request_token_info_def request_public_key_def request_json_web_keys_def raise_for_status_def
        of_result_def subscript_def prog_defs Let_def split: sum.splits option.splits)






lemma mw_verify_raises:
  "http_method req \<noteq> ''OPTIONS'' \<Longrightarrow> \<not> whitelisted opts req \<Longrightarrow>
   token_getter opts = Some getter \<Longrightarrow> getter req = Inr token \<Longrightarrow> truthy token \<Longrightarrow>
   decode_avanpost_jwt cfg lib ui jw (py_str token) (app s) = (Inl e, w1) \<Longrightarrow>
   jwt_middleware cfg lib ui jw opts req handler s =
     (Inl (case e of InvalidTokenError msg \<Rightarrow> HTTPUnauthorized (''Invalid authorization token, '' @ msg)
           | _ \<Rightarrow> e),
      s\<lparr>trace := trace s @ [START, WHITELIST_CHECK, TOKEN_EXTRACT, TOKEN_VERIFY], app := w1\<rparr>)"
  by (cases e) (simp_all add: mw_defs)



text \<open>The state in which the permission check runs: the claims are attached.\<close>

lemma mw_permission_raises:
  "http_method req \<noteq> ''OPTIONS'' \<Longrightarrow> \<not> whitelisted opts req \<Longrightarrow>
   token_getter opts = Some getter \<Longrightarrow> getter req = Inr token \<Longrightarrow> truthy token \<Longrightarrow>
   decode_avanpost_jwt cfg lib ui jw (py_str token) (app s) = (Inr decoded, w1) \<Longrightarrow>
   (is_revoked_arg opts = None \<and> w2 = w1) \<or>
   (\<exists>f res. is_revoked_arg opts = Some f \<and> f req (py_str token) w1 = (Inr res, w2) \<and> res \<noteq> Some True) \<Longrightarrow>
   has_permissions cfg decoded = Inl e \<Longrightarrow>
   jwt_middleware cfg lib ui jw opts req handler s =
     (Inl e,
      s\<lparr>trace := trace s @ [START, WHITELIST_CHECK, TOKEN_EXTRACT, TOKEN_VERIFY, REVOCATION_CHECK,
                            CONTEXT_ATTACH, PERMISSION_CHECK],
        app := w2, items := (items s)(request_property opts \<mapsto> Claims decoded)\<rparr>)"
  by (auto simp add: mw_defs)













lemma any_group_named_total:
  "(\<exists>b. any_group_named name gs = Inr b) \<longleftrightarrow>
   (\<forall>g \<in> set (takeWhile (\<lambda>g. \<forall>d. g = JDict d \<longrightarrow> py_get d ''name'' \<noteq> JStr name) gs).
      \<exists>d. g = JDict d)"
  by (induction name gs rule: any_group_named.induct) auto

lemma any_group_named_dicts:
  "\<forall>g \<in> set gs. \<exists>d. g = JDict d \<Longrightarrow> \<exists>b. any_group_named name gs = Inr b"
  by (induction name gs rule: any_group_named.induct) auto

lemma any_group_named_raises:
  "any_group_named name gs = Inl e \<Longrightarrow> e = AttributeError"
  by (induction name gs rule: any_group_named.induct) (auto split: if_splits)

lemma has_permissions_no_groups:
  "map_of token ''groups'' = None \<Longrightarrow> has_permissions cfg token = Inl TypeError"
  by (simp add: has_permissions_def py_get_def)

lemma stub_decode:
  "decode_avanpost_jwt stub_config stub_pyjwt stub_userinfo stub_jwks tok w =
    (if tok = ''garbage'' then (Inl (InvalidTokenError ''Not enough segments''),
         w\<lparr>issuer_log := issuer_log w @ [UserinfoGet tok, JwksGet]\<rparr>)
     else if tok = ''rotated'' then (Inl (KeyError ''2''),
         w\<lparr>issuer_log := issuer_log w @ [UserinfoGet tok, JwksGet]\<rparr>)
     else (jwt_decode stub_pyjwt tok ''K1'' [''RS256''] ''https://idp'' (JStr ''gateway''),
         w\<lparr>issuer_log := issuer_log w @ [UserinfoGet tok, JwksGet]\<rparr>))"
  by (simp add: decode_avanpost_jwt_def request_token_info_def request_public_key_def
        request_json_web_keys_def raise_for_status_def of_result_def subscript_def prog_defs
        Let_def stub_config_def stub_pyjwt_def stub_userinfo_def stub_jwks_def
      split: sum.splits)

lemma stub_request_facts:
  "http_method (bearer tok) \<noteq> ''OPTIONS''" "\<not> whitelisted stub_options (bearer tok)"
  "token_getter stub_options = Some (\<lambda>r. Inr (authorization r))"
  "authorization (bearer tok) = Some tok"
  "is_revoked_arg stub_options = Some (\<lambda>r. is_revoked)"
  "request_property stub_options = ''payload''"
  "store_token stub_options = Some ''sso_token''"
  by (simp_all add: bearer_def stub_options_def)

section \<open>Base64 digits and the query of the authorization URL\<close>

lemma div_decomp:
  fixes x m q r :: nat
  assumes "x = m * q + r" "r < m"
  shows "x div m = q"
  using assms by simp

lemma mod_decomp:
  fixes x m q r :: nat
  assumes "x = m * q + r" "r < m"
  shows "x mod m = r"
  using assms by simp

lemma sextets3:
  fixes a b c :: nat
  assumes "a < 256" "b < 256" "c < 256"
  shows "(a * 65536 + b * 256 + c) div 262144 mod 64 = a div 4"
    and "(a * 65536 + b * 256 + c) div 4096 mod 64 = a mod 4 * 16 + b div 16"
    and "(a * 65536 + b * 256 + c) div 64 mod 64 = b mod 16 * 4 + c div 64"
    and "(a * 65536 + b * 256 + c) mod 64 = c mod 64"
proof -
  define a1 a0 b1 b0 c1 c0 where "a1 = a div 4" and "a0 = a mod 4" and "b1 = b div 16"
    and "b0 = b mod 16" and "c1 = c div 64" and "c0 = c mod 64"
  define n where "n = a * 65536 + b * 256 + c"
  have a: "a = 4 * a1 + a0" "a0 < 4" "a1 < 64"
    using assms by (simp_all add: a1_def a0_def)
  have b: "b = 16 * b1 + b0" "b0 < 16" "b1 < 16"
    using assms by (simp_all add: b1_def b0_def)
  have c: "c = 64 * c1 + c0" "c0 < 64" "c1 < 4"
    using assms by (simp_all add: c1_def c0_def)
  have e1: "n = 262144 * a1 + (a0 * 65536 + b * 256 + c)"
    unfolding n_def using a(1) by linarith
  have l1: "a0 * 65536 + b * 256 + c < 262144" using a assms by linarith
  have d1: "n div 262144 = a1"
    using e1 l1 by (rule div_decomp)
  have e2: "n = 4096 * (a * 16 + b1) + (b0 * 256 + c)"
    unfolding n_def using b(1) by (simp add: distrib_left)
  have l2: "b0 * 256 + c < 4096" using b assms by linarith
  have d2: "n div 4096 = a * 16 + b1"
    using e2 l2 by (rule div_decomp)
  have e2': "a * 16 + b1 = 64 * a1 + (a0 * 16 + b1)" using a(1) by linarith
  have l2': "a0 * 16 + b1 < 64" using a b by linarith
  have m2: "(a * 16 + b1) mod 64 = a0 * 16 + b1"
    using e2' l2' by (rule mod_decomp)
  have e3: "n = 64 * (a * 1024 + b * 4 + c1) + c0"
    unfolding n_def using c(1) by (simp add: distrib_left)
  have d3: "n div 64 = a * 1024 + b * 4 + c1"
    using e3 c(2) by (rule div_decomp)
  have m4: "n mod 64 = c0"
    using e3 c(2) by (rule mod_decomp)
  have e3': "a * 1024 + b * 4 + c1 = 64 * (a * 16 + b1) + (b0 * 4 + c1)"
    using b(1) by (simp add: distrib_left)
  have l3': "b0 * 4 + c1 < 64" using b c by linarith
  have m3: "(a * 1024 + b * 4 + c1) mod 64 = b0 * 4 + c1"
    using e3' l3' by (rule mod_decomp)
  have "a1 mod 64 = a1" using a(3) by simp
  with d1 show "(a * 65536 + b * 256 + c) div 262144 mod 64 = a div 4"
    unfolding n_def a1_def by simp
  from d2 m2 show "(a * 65536 + b * 256 + c) div 4096 mod 64 = a mod 4 * 16 + b div 16"
    unfolding n_def a0_def b1_def by simp
  from d3 m3 show "(a * 65536 + b * 256 + c) div 64 mod 64 = b mod 16 * 4 + c div 64"
    unfolding n_def b0_def c1_def by simp
  from m4 show "(a * 65536 + b * 256 + c) mod 64 = c mod 64"
    unfolding n_def c0_def by simp
qed

lemma sextets2:
  fixes a b :: nat
  assumes "a < 256" "b < 256"
  shows "(a * 256 + b) * 4 div 4096 mod 64 = a div 4"
    and "(a * 256 + b) * 4 div 64 mod 64 = a mod 4 * 16 + b div 16"
    and "(a * 256 + b) * 4 mod 64 = b mod 16 * 4"
proof -
  define a1 a0 b1 b0 where "a1 = a div 4" and "a0 = a mod 4" and "b1 = b div 16"
    and "b0 = b mod 16"
  define n where "n = (a * 256 + b) * 4"
  have a: "a = 4 * a1 + a0" "a0 < 4" "a1 < 64"
    using assms by (simp_all add: a1_def a0_def)
  have b: "b = 16 * b1 + b0" "b0 < 16" "b1 < 16"
    using assms by (simp_all add: b1_def b0_def)
  have e1: "n = 4096 * a1 + (a0 * 1024 + b * 4)"
    unfolding n_def using a(1) by (simp add: distrib_left)
  have l1: "a0 * 1024 + b * 4 < 4096" using a assms by linarith
  have d1: "n div 4096 = a1"
    using e1 l1 by (rule div_decomp)
  have e2: "n = 64 * (a * 16 + b1) + b0 * 4"
    unfolding n_def using b(1) by (simp add: distrib_left)
  have l2: "b0 * 4 < 64" using b by linarith
  have d2: "n div 64 = a * 16 + b1"
    using e2 l2 by (rule div_decomp)
  have m3: "n mod 64 = b0 * 4"
    using e2 l2 by (rule mod_decomp)
  have e2': "a * 16 + b1 = 64 * a1 + (a0 * 16 + b1)" using a(1) by linarith
  have l2': "a0 * 16 + b1 < 64" using a b by linarith
  have m2: "(a * 16 + b1) mod 64 = a0 * 16 + b1"
    using e2' l2' by (rule mod_decomp)
  have "a1 mod 64 = a1" using a(3) by simp
  with d1 show "(a * 256 + b) * 4 div 4096 mod 64 = a div 4"
    unfolding n_def a1_def by simp
  from d2 m2 show "(a * 256 + b) * 4 div 64 mod 64 = a mod 4 * 16 + b div 16"
    unfolding n_def a0_def b1_def by simp
  from m3 show "(a * 256 + b) * 4 mod 64 = b mod 16 * 4"
    unfolding n_def b0_def by simp
qed

lemma sextets1:
  fixes a :: nat
  assumes "a < 256"
  shows "a * 16 div 64 mod 64 = a div 4" and "a * 16 mod 64 = a mod 4 * 16"
proof -
  define a1 a0 where "a1 = a div 4" and "a0 = a mod 4"
  have a: "a = 4 * a1 + a0" "a0 < 4" "a1 < 64"
    using assms by (simp_all add: a1_def a0_def)
  have e: "a * 16 = 64 * a1 + a0 * 16" using a(1) by linarith
  have l: "a0 * 16 < 64" using a by linarith
  have d: "a * 16 div 64 = a1" using e l by (rule div_decomp)
  have m: "a * 16 mod 64 = a0 * 16" using e l by (rule mod_decomp)
  have "a1 mod 64 = a1" using a(3) by simp
  with d show "a * 16 div 64 mod 64 = a div 4" unfolding a1_def by simp
  from m show "a * 16 mod 64 = a mod 4 * 16" unfolding a0_def by simp
qed

lemma unat_byte: "unat (a :: byte) < 256"
  using unsigned_less [of a] by simp

lemma pad_not_in_alphabet: "CHR ''='' \<notin> set urlsafe_alphabet"
  by (simp add: urlsafe_alphabet_def)

lemma amp_not_in_alphabet: "CHR ''&'' \<notin> set urlsafe_alphabet"
  by (simp add: urlsafe_alphabet_def)

lemma b64char_in_alphabet: "i < 64 \<Longrightarrow> b64char i \<in> set urlsafe_alphabet"
  unfolding b64char_def by (rule nth_mem) (simp add: urlsafe_alphabet_def)

lemma b64char_not_pad: "i < 64 \<Longrightarrow> b64char i \<noteq> CHR ''=''"
  using b64char_in_alphabet [of i] pad_not_in_alphabet by auto

lemma sextet_bounds:
  fixes a b c :: nat
  assumes "a < 256" "b < 256" "c < 256"
  shows "a div 4 < 64" "a mod 4 * 16 + b div 16 < 64" "b mod 16 * 4 + c div 64 < 64"
    "c mod 64 < 64" "a mod 4 * 16 < 64" "b mod 16 * 4 < 64"
  using assms by linarith+

lemma nopad_digits:
  "base64url_nopad [a] = [b64char (unat a div 4), b64char (unat a mod 4 * 16)]"
  "base64url_nopad [a, b] =
     [b64char (unat a div 4), b64char (unat a mod 4 * 16 + unat b div 16),
      b64char (unat b mod 16 * 4)]"
  "base64url_nopad (a # b # c # rest) =
     [b64char (unat a div 4), b64char (unat a mod 4 * 16 + unat b div 16),
      b64char (unat b mod 16 * 4 + unat c div 64), b64char (unat c mod 64)]
     @ base64url_nopad rest"
  by (simp_all only: base64url_nopad.simps Let_def sextets1 [OF unat_byte]
        sextets2 [OF unat_byte unat_byte] sextets3 [OF unat_byte unat_byte unat_byte])

lemma strip_padding_is_nopad:
  "filter (\<lambda>c. c \<noteq> CHR ''='') (urlsafe_b64encode bs) = base64url_nopad bs"
proof (induction bs rule: urlsafe_b64encode.induct)
  case 1
  show ?case by simp
next
  case (2 a)
  show ?case
    using sextet_bounds [OF unat_byte [of a] unat_byte [of a] unat_byte [of a]]
    by (simp add: nopad_digits b64char_not_pad del: base64url_nopad.simps)
next
  case (3 a b)
  show ?case
    using sextet_bounds [OF unat_byte [of a] unat_byte [of b] unat_byte [of b]]
    by (simp add: nopad_digits b64char_not_pad del: base64url_nopad.simps)
next
  case (4 a b c rest)
  then show ?case
    using sextet_bounds [OF unat_byte [of a] unat_byte [of b] unat_byte [of c]]
    by (simp add: nopad_digits b64char_not_pad del: base64url_nopad.simps)
qed

lemma nopad_in_alphabet: "set (base64url_nopad bs) \<subseteq> set urlsafe_alphabet"
proof (induction bs rule: base64url_nopad.induct)
  case 1
  show ?case by simp
next
  case (2 a)
  show ?case
    using sextet_bounds [OF unat_byte [of a] unat_byte [of a] unat_byte [of a]]
    by (simp add: nopad_digits b64char_in_alphabet del: base64url_nopad.simps)
next
  case (3 a b)
  show ?case
    using sextet_bounds [OF unat_byte [of a] unat_byte [of b] unat_byte [of b]]
    by (simp add: nopad_digits b64char_in_alphabet del: base64url_nopad.simps)
next
  case (4 a b c rest)
  then show ?case
    using sextet_bounds [OF unat_byte [of a] unat_byte [of b] unat_byte [of c]]
    by (simp add: nopad_digits b64char_in_alphabet del: base64url_nopad.simps)
qed

lemma nopad_length: "length (base64url_nopad bs) = (4 * length bs + 2) div 3"
  by (induction bs rule: base64url_nopad.induct) (simp_all add: Let_def)


lemma split_on_sep:
  "sep \<notin> set a \<Longrightarrow> split_on sep (a @ sep # b) = a # split_on sep b"
  by (induction a) auto

lemma split_on_none: "sep \<notin> set a \<Longrightarrow> split_on sep a = [a]"
  by (induction a) auto

lemma url_query_authorization_url:
  assumes "CHR ''?'' \<notin> set formatted_issuer"
  shows "url_query (formatted_issuer @ ''/oauth2/authorize?response_type=code''
           @ ''&client_id='' @ cid @ ''&scope='' @ sc @ ''&redirect_uri='' @ ru
           @ ''&code_challenge_method=S256'' @ ''&code_challenge='' @ ch
           @ ''&state='' @ st) =
     ''response_type=code&client_id='' @ cid @ ''&scope='' @ sc
     @ ''&redirect_uri='' @ ru
     @ ''&code_challenge_method=S256&code_challenge='' @ ch @ ''&state='' @ st"
proof -
  have "\<forall>c \<in> set formatted_issuer. c \<noteq> CHR ''?''" using assms by auto
  then show ?thesis
    by (simp add: url_query_def dropWhile_append2)
qed

lemma authorization_url_fields:
  assumes "CHR ''&'' \<notin> set cid" "CHR ''&'' \<notin> set sc" "CHR ''&'' \<notin> set ru"
    "CHR ''&'' \<notin> set ch" "CHR ''&'' \<notin> set st"
  shows "split_on CHR ''&''
     (''response_type=code&client_id='' @ cid @ ''&scope='' @ sc
      @ ''&redirect_uri='' @ ru
      @ ''&code_challenge_method=S256&code_challenge='' @ ch @ ''&state='' @ st) =
     [''response_type=code'', ''client_id='' @ cid, ''scope='' @ sc, ''redirect_uri='' @ ru,
      ''code_challenge_method=S256'', ''code_challenge='' @ ch, ''state='' @ st]"
  using assms by (simp add: split_on_sep split_on_none)

lemma authorization_url_params:
  assumes "issuer_part cfg ch st = Inr formatted_issuer"
    "CHR ''?'' \<notin> set formatted_issuer" "CHR ''&'' \<notin> set (client_id cfg)"
    "CHR ''&'' \<notin> set (scopes cfg)" "CHR ''&'' \<notin> set (authorization_redirect_url cfg)"
    "CHR ''&'' \<notin> set ch" "CHR ''&'' \<notin> set st"
  shows "\<exists>url. AUTHORIZATION_URL cfg ch st = Inr url
           \<and> query_param ''code_challenge'' url = Some ch
           \<and> query_param ''code_challenge_method'' url = Some ''S256''
           \<and> query_param ''state'' url = Some st"
proof -
  let ?url = "formatted_issuer @ ''/oauth2/authorize?response_type=code''
           @ ''&client_id='' @ client_id cfg @ ''&scope='' @ scopes cfg
           @ ''&redirect_uri='' @ authorization_redirect_url cfg
           @ ''&code_challenge_method=S256'' @ ''&code_challenge='' @ ch
           @ ''&state='' @ st"
  have u: "AUTHORIZATION_URL cfg ch st = Inr ?url"
    unfolding AUTHORIZATION_URL_def assms(1) by simp
  have f: "split_on CHR ''&'' (url_query ?url) =
     [''response_type=code'', ''client_id='' @ client_id cfg, ''scope='' @ scopes cfg,
      ''redirect_uri='' @ authorization_redirect_url cfg,
      ''code_challenge_method=S256'', ''code_challenge='' @ ch, ''state='' @ st]"
    unfolding url_query_authorization_url [OF assms(2)]
    by (rule authorization_url_fields [OF assms(3-7)])
  have "query_param ''code_challenge'' ?url = Some ch"
    and "query_param ''code_challenge_method'' ?url = Some ''S256''"
    and "query_param ''state'' ?url = Some st"
    unfolding query_param_def f by simp_all
  with u show ?thesis by blast
qed

lemma issuer_part_plain:
  "CHR ''{'' \<notin> set (issuer cfg) \<Longrightarrow> CHR ''}'' \<notin> set (issuer cfg) \<Longrightarrow>
   issuer_part cfg ch st = Inr (issuer cfg)"
  by (simp add: issuer_part_def)


lemma challenge_no_amp: "CHR ''&'' \<notin> set (get_code_challenge sha cv)"
  using nopad_in_alphabet [of "sha (encode_utf8 cv)"] amp_not_in_alphabet
  by (auto simp add: get_code_challenge_def strip_padding_is_nopad)

lemma verifier_no_amp: "CHR ''&'' \<notin> set (get_code_verifier urandom)"
  by (simp add: get_code_verifier_def alnum_def)

lemma b64char_values:
  "b64char 0 = CHR ''A''" "b64char 13 = CHR ''N''" "b64char 35 = CHR ''j''"
  "b64char 24 = CHR ''Y''" "b64char 54 = CHR ''2''"
  by (simp_all add: b64char_def urlsafe_alphabet_def)

lemma replicate_40: "replicate 40 x =
  [x,x,x,x,x,x,x,x,x,x,x,x,x,x,x,x,x,x,x,x,x,x,x,x,x,x,x,x,x,x,x,x,x,x,x,x,x,x,x,x]"
  by (simp add: numeral_eq_Suc)

lemma replicate_32: "replicate 32 x =
  [x,x,x,x,x,x,x,x,x,x,x,x,x,x,x,x,x,x,x,x,x,x,x,x,x,x,x,x,x,x,x,x]"
  by (simp add: numeral_eq_Suc)

lemma zero_verifier:
  "get_code_verifier (replicate 40 0) = ''AAAAAAAAAAAAAAAAAAAAAAAAAAAAAAAAAAAAAAAAAAAAAAAAAAAAAA''"
  unfolding replicate_40 by (simp add: get_code_verifier_def alnum_def b64char_values)

lemma zero_verifier_digest:
  "stub_digest (encode_utf8 (get_code_verifier (replicate 40 0))) = replicate 32 54"
  by (simp add: zero_verifier stub_digest_def encode_utf8_def)

lemma zero_verifier_challenge:
  "base64url_nopad (replicate 32 54) = ''NjY2NjY2NjY2NjY2NjY2NjY2NjY2NjY2NjY2NjY2NjY''"
  unfolding replicate_32 by (simp add: Let_def b64char_values)

section \<open>Claims\<close>

text \<open>
  C1 (as amended). Take a callback whose exchange returned the access token
  \<open>at\<close>, the refresh token \<open>rt\<close> and \<open>expires_in =
  e\<close> with \<open>e\<close> at least 0. When the cache server accepts
  \<open>e\<close> as an expiry (\<open>e\<close> is 0, which sets none, or
  \<open>e\<close> seconds in milliseconds, added to the server's clock, do not exceed
  \<open>LLONG_MAX\<close>), the cache afterwards holds
  \<open>rt\<close> without expiry under the key
  \<open>forest:sso:token:{access_token}:<at>\<close> (the module's key template, a colon
  and the token), the code-verifier entry of the state, whose key is
  \<open>forest:sso:avanpost:code_verifier:<state>\<close>, is gone, and the view
  redirects to the formatted \<open>TOKEN_REDIRECT_URL\<close> (or raises what formatting
  it raises). When the server refuses \<open>e\<close>, the callback ends with the
  server's error: the verifier entry is gone and no refresh token has been written.
\<close>

theorem sso_callback_stores_refresh_token:
  assumes "truthy code"
    and "json_or_raise_for_status (token_endpoint (AuthorizationCode (client_id cfg)
           (authorization_redirect_url cfg) (py_str code)
           (py_str (redis_get (redis w) (CODE_VERIFIER_REDIS_KEY (py_str state)))))) = Inr d"
    and "access_token d = Some at" and "refresh_token d = Some rt"
    and "expires_in d = Some e" and "0 \<le> e"
  shows "(e = 0 \<or> e * 1000 \<le> LLONG_MAX - int (clock w) \<longrightarrow>
           fst (sso_callback cfg token_endpoint code state w)
             = (case token_redirect_url cfg at rt of
                  Inl x \<Rightarrow> Inl x
                | Inr url \<Rightarrow> Inr (Found url))
           \<and> redis_get (redis (snd (sso_callback cfg token_endpoint code state w)))
                 (''forest:sso:token:{access_token}:'' @ at) = Some rt
           \<and> redis_ttl (redis (snd (sso_callback cfg token_endpoint code state w)))
                 (''forest:sso:token:{access_token}:'' @ at) = - 1
           \<and> redis_exists (redis (snd (sso_callback cfg token_endpoint code state w)))
                 (''forest:sso:avanpost:code_verifier:'' @ py_str state) = False)
    \<and> (0 < e \<and> LLONG_MAX - int (clock w) < e * 1000 \<longrightarrow>
           fst (sso_callback cfg token_endpoint code state w) = Inl ReplyError
           \<and> redis_exists (redis (snd (sso_callback cfg token_endpoint code state w)))
                 (''forest:sso:avanpost:code_verifier:'' @ py_str state) = False
           \<and> redis (snd (sso_callback cfg token_endpoint code state w))
                 (''forest:sso:token:{access_token}:'' @ at)
               = redis w (''forest:sso:token:{access_token}:'' @ at))"
proof (intro conjI impI)
  have k1: "''forest:sso:token:{access_token}:'' @ at = TOKEN_REDIS_KEY @ '':'' @ at"
    by (simp add: TOKEN_REDIS_KEY_def)
  have k2: "''forest:sso:avanpost:code_verifier:'' @ py_str state
              = CODE_VERIFIER_REDIS_KEY (py_str state)"
    by (simp add: CODE_VERIFIER_REDIS_KEY_def)
  {
    assume ok: "e = 0 \<or> e * 1000 \<le> LLONG_MAX - int (clock w)"
    note r = sso_callback_success [where ep = token_endpoint and cfg = cfg and code = code
        and st = state and w = w, OF assms ok]
    show "fst (sso_callback cfg token_endpoint code state w)
             = (case token_redirect_url cfg at rt of
                  Inl x \<Rightarrow> Inl x
                | Inr url \<Rightarrow> Inr (Found url))"
      unfolding r by simp
    show "redis_get (redis (snd (sso_callback cfg token_endpoint code state w)))
                 (''forest:sso:token:{access_token}:'' @ at) = Some rt"
      unfolding k1 r by (simp add: redis_get_def token_keys_distinct)
    show "redis_ttl (redis (snd (sso_callback cfg token_endpoint code state w)))
                 (''forest:sso:token:{access_token}:'' @ at) = - 1"
      unfolding k1 r by (simp add: redis_ttl_def token_keys_distinct)
    show "redis_exists (redis (snd (sso_callback cfg token_endpoint code state w)))
                 (''forest:sso:avanpost:code_verifier:'' @ py_str state) = False"
      unfolding k2 r by (simp add: redis_exists_def token_keys_distinct)
  }
  {
    assume refused: "0 < e \<and> LLONG_MAX - int (clock w) < e * 1000"
    then have pos: "0 < e" and no: "LLONG_MAX - int (clock w) < e * 1000"
      by simp_all
    note r = sso_callback_expiry_refused [where ep = token_endpoint and cfg = cfg
        and code = code and st = state and w = w, OF assms(1-3) assms(5) pos no]
    show "fst (sso_callback cfg token_endpoint code state w) = Inl ReplyError"
      unfolding r by simp
    show "redis_exists (redis (snd (sso_callback cfg token_endpoint code state w)))
                 (''forest:sso:avanpost:code_verifier:'' @ py_str state) = False"
      unfolding k2 r by (simp add: redis_exists_def)
    show "redis (snd (sso_callback cfg token_endpoint code state w))
                 (''forest:sso:token:{access_token}:'' @ at)
               = redis w (''forest:sso:token:{access_token}:'' @ at)"
      unfolding k1 r by (simp add: token_keys_distinct)
  }
qed

theorem sso_callback_stores_refresh_token_witness:
  "fst (sso_callback stub_config stub_token_endpoint (Some ''abc123'') (Some ''S1'') pending_login)
     = Inr (Found ''https://ui/?access_token=AT1&refresh_token=RT1'')
   \<and> redis_get (redis (snd (sso_callback stub_config stub_token_endpoint (Some ''abc123'')
          (Some ''S1'') pending_login))) ''forest:sso:token:{access_token}:AT1'' = Some ''RT1''
   \<and> redis_ttl (redis (snd (sso_callback stub_config stub_token_endpoint (Some ''abc123'')
          (Some ''S1'') pending_login))) ''forest:sso:token:{access_token}:AT1'' = - 1
   \<and> redis_exists (redis (snd (sso_callback stub_config stub_token_endpoint (Some ''abc123'')
          (Some ''S1'') pending_login))) ''forest:sso:avanpost:code_verifier:S1'' = False
   \<and> fst (sso_callback stub_config unending_token_endpoint (Some ''abc123'') (Some ''S1'')
          pending_login) = Inl ReplyError
   \<and> redis_exists (redis (snd (sso_callback stub_config unending_token_endpoint
          (Some ''abc123'') (Some ''S1'') pending_login)))
        ''forest:sso:avanpost:code_verifier:S1'' = False
   \<and> redis_exists (redis (snd (sso_callback stub_config unending_token_endpoint
          (Some ''abc123'') (Some ''S1'') pending_login)))
        ''forest:sso:token:{access_token}:AT1'' = False"
proof -
  have a: "(3600::int) * 1000 \<le> LLONG_MAX - int (clock pending_login)"
    "LLONG_MAX - int (clock pending_login) < 10000000000000000 * 1000"
    by (simp_all add: LLONG_MAX_def pending_login_def)
  have b: "redis pending_login ''forest:sso:token:{access_token}:AT1'' = None"
    by (simp add: pending_login_def CODE_VERIFIER_REDIS_KEY_def)
  show ?thesis
    using sso_callback_stores_refresh_token [where code = "Some ''abc123''"
        and token_endpoint = stub_token_endpoint and cfg = stub_config and w = pending_login
        and state = "Some ''S1''" and at = "''AT1''" and rt = "''RT1''" and e = 3600
        and d = "\<lparr>access_token = Some ''AT1'', refresh_token = Some ''RT1'',
                   expires_in = Some 3600, error = None\<rparr>"]
      sso_callback_stores_refresh_token [where code = "Some ''abc123''"
        and token_endpoint = unending_token_endpoint and cfg = stub_config
        and w = pending_login
        and state = "Some ''S1''" and at = "''AT1''" and rt = "''RT1''"
        and e = 10000000000000000
        and d = "\<lparr>access_token = Some ''AT1'', refresh_token = Some ''RT1'',
                   expires_in = Some 10000000000000000, error = None\<rparr>"]
      a b
    by (simp add: truthy_def json_or_raise_for_status_def stub_token_endpoint_def
          unending_token_endpoint_def stub_config_def py_str_def redis_exists_def)
qed

text \<open>
  The specification's sentence does not hold of the code: in the end-to-end scenario the
  callback succeeds, and the cache has no entry under \<open>sso:token:AT1\<close> nor
  under \<open>sso:token:AT1:refresh\<close> (nor under these keys with the module's
  \<open>forest:\<close> prefix).
\<close>

theorem sso_callback_key_format_counterexample:
  "fst (sso_callback stub_config stub_token_endpoint (Some ''abc123'') (Some ''S1'') pending_login)
     = Inr (Found ''https://ui/?access_token=AT1&refresh_token=RT1'')
   \<and> redis_exists (redis (snd (sso_callback stub_config stub_token_endpoint (Some ''abc123'')
          (Some ''S1'') pending_login))) ''sso:token:AT1'' = False
   \<and> redis_exists (redis (snd (sso_callback stub_config stub_token_endpoint (Some ''abc123'')
          (Some ''S1'') pending_login))) ''sso:token:AT1:refresh'' = False
   \<and> redis_exists (redis (snd (sso_callback stub_config stub_token_endpoint (Some ''abc123'')
          (Some ''S1'') pending_login))) ''forest:sso:token:AT1'' = False
   \<and> redis_exists (redis (snd (sso_callback stub_config stub_token_endpoint (Some ''abc123'')
          (Some ''S1'') pending_login))) ''forest:sso:token:AT1:refresh'' = False"
  by (simp add: sso_callback_def exchange_code_for_token_def request_exchange_result Let_def
       revoke_code_verifier_result set_access_token_def set_refresh_token_def
       prog_defs redis_set_def LLONG_MAX_def redis_exists_def redis_delete_def py_str_def truthy_def
       json_or_raise_for_status_def stub_token_endpoint_def stub_config_def pending_login_def
       TOKEN_REDIS_KEY_def CODE_VERIFIER_REDIS_KEY_def)

text \<open>
  C2 (the code departs from the specification). \<open>is_revoked\<close> evaluates to
  \<open>None\<close> for every token and every cache, present or absent entry alike, and
  leaves the state as it was; so the middleware's revocation test, given this predicate,
  is never true.
\<close>

theorem is_revoked_returns_None:
  "is_revoked token w = (Inr None, w)
   \<and> revoked_test (opts\<lparr>is_revoked_arg := Some (\<lambda>req. is_revoked)\<rparr>) req token s
       = (Inr False, s)"
  by (simp add: is_revoked_def revoked_test_def in_app_def prog_defs)

text \<open>
  C3 (as amended). The callback does not test whether the state has a stored verifier.
  With a non-empty code it always calls the issuer's token endpoint, once, sending
  \<open>str\<close> of the looked-up verifier, which is the text \<open>None\<close> when
  there is none. It deletes the state's entry only after the exchange: a failed exchange
  or a missing code leaves the cache as it was, and whenever the callback returns a
  response the entry is absent. A second callback with the same state therefore reaches
  the issuer again, with the verifier \<open>None\<close>.
\<close>

theorem sso_callback_exchanges_without_state_check:
  "(truthy code \<longrightarrow>
      issuer_log (snd (sso_callback cfg ep code state w)) =
        issuer_log w @
          [TokenPost (AuthorizationCode (client_id cfg) (authorization_redirect_url cfg)
             (py_str code)
             (py_str (redis_get (redis w) (CODE_VERIFIER_REDIS_KEY (py_str state)))))])
   \<and> (\<forall>e. truthy code \<and>
          json_or_raise_for_status (ep (AuthorizationCode (client_id cfg)
            (authorization_redirect_url cfg) (py_str code)
            (py_str (redis_get (redis w) (CODE_VERIFIER_REDIS_KEY (py_str state)))))) = Inl e
        \<longrightarrow> fst (sso_callback cfg ep code state w) = Inl e
            \<and> redis (snd (sso_callback cfg ep code state w)) = redis w)
   \<and> (\<not> truthy code \<longrightarrow>
        sso_callback cfg ep code state w
          = (Inl (HTTPBadRequest (Reason ''PKCE code required'')), w))
   \<and> (\<forall>resp. fst (sso_callback cfg ep code state w) = Inr resp \<longrightarrow>
        redis_get (redis (snd (sso_callback cfg ep code state w)))
          (CODE_VERIFIER_REDIS_KEY (py_str state)) = None
        \<and> (\<forall>ep2 code2. truthy code2 \<longrightarrow>
             issuer_log (snd (sso_callback cfg ep2 code2 state
                                (snd (sso_callback cfg ep code state w)))) =
               issuer_log (snd (sso_callback cfg ep code state w)) @
                 [TokenPost (AuthorizationCode (client_id cfg)
                    (authorization_redirect_url cfg) (py_str code2) ''None'')]))"
proof -
  have a: "truthy code \<longrightarrow>
      issuer_log (snd (sso_callback cfg ep code state w)) =
        issuer_log w @
          [TokenPost (AuthorizationCode (client_id cfg) (authorization_redirect_url cfg)
             (py_str code)
             (py_str (redis_get (redis w) (CODE_VERIFIER_REDIS_KEY (py_str state)))))]"
    by (simp add: sso_callback_issuer_log)
  have b: "\<forall>e. truthy code \<and>
          json_or_raise_for_status (ep (AuthorizationCode (client_id cfg)
            (authorization_redirect_url cfg) (py_str code)
            (py_str (redis_get (redis w) (CODE_VERIFIER_REDIS_KEY (py_str state)))))) = Inl e
        \<longrightarrow> fst (sso_callback cfg ep code state w) = Inl e
            \<and> redis (snd (sso_callback cfg ep code state w)) = redis w"
    by (simp add: sso_callback_exchange_fails)
  have c: "\<not> truthy code \<longrightarrow>
        sso_callback cfg ep code state w
          = (Inl (HTTPBadRequest (Reason ''PKCE code required'')), w)"
    by (simp add: sso_callback_no_code)
  have d: "\<forall>resp. fst (sso_callback cfg ep code state w) = Inr resp \<longrightarrow>
        redis_get (redis (snd (sso_callback cfg ep code state w)))
          (CODE_VERIFIER_REDIS_KEY (py_str state)) = None
        \<and> (\<forall>ep2 code2. truthy code2 \<longrightarrow>
             issuer_log (snd (sso_callback cfg ep2 code2 state
                                (snd (sso_callback cfg ep code state w)))) =
               issuer_log (snd (sso_callback cfg ep code state w)) @
                 [TokenPost (AuthorizationCode (client_id cfg)
                    (authorization_redirect_url cfg) (py_str code2) ''None'')])"
  proof (intro allI impI)
    fix resp
    assume r: "fst (sso_callback cfg ep code state w) = Inr resp"
    have gone: "redis (snd (sso_callback cfg ep code state w))
                  (CODE_VERIFIER_REDIS_KEY (py_str state)) = None"
      using r by (rule sso_callback_returns_deleted)
    then have g: "redis_get (redis (snd (sso_callback cfg ep code state w)))
                    (CODE_VERIFIER_REDIS_KEY (py_str state)) = None"
      by (simp add: redis_get_def)
    show "redis_get (redis (snd (sso_callback cfg ep code state w)))
          (CODE_VERIFIER_REDIS_KEY (py_str state)) = None
        \<and> (\<forall>ep2 code2. truthy code2 \<longrightarrow>
             issuer_log (snd (sso_callback cfg ep2 code2 state
                                (snd (sso_callback cfg ep code state w)))) =
               issuer_log (snd (sso_callback cfg ep code state w)) @
                 [TokenPost (AuthorizationCode (client_id cfg)
                    (authorization_redirect_url cfg) (py_str code2) ''None'')])"
      using g by (simp add: sso_callback_issuer_log py_str_def)
  qed
  from a b c d show ?thesis by blast
qed

theorem sso_callback_exchanges_without_state_check_witness:
  "issuer_log (snd (sso_callback stub_config stub_token_endpoint (Some ''abc123'') (Some ''S1'')
       pending_login))
     = [TokenPost (AuthorizationCode ''gateway'' ''https://gw/callback'' ''abc123'' ''V1'')]
   \<and> issuer_log (snd (sso_callback stub_config stub_token_endpoint (Some ''abc123'')
        (Some ''S1'')
        (snd (sso_callback stub_config stub_token_endpoint (Some ''abc123'') (Some ''S1'')
           pending_login))))
     = [TokenPost (AuthorizationCode ''gateway'' ''https://gw/callback'' ''abc123'' ''V1''),
        TokenPost (AuthorizationCode ''gateway'' ''https://gw/callback'' ''abc123'' ''None'')]
   \<and> sso_callback stub_config stub_token_endpoint None (Some ''S1'') pending_login
       = (Inl (HTTPBadRequest (Reason ''PKCE code required'')), pending_login)
   \<and> fst (sso_callback stub_config refusing_token_endpoint (Some ''abc123'') (Some ''S1'')
          pending_login)
       = Inl (HTTPBadRequest (ReasonDict
           \<lparr>access_token = None, refresh_token = None, expires_in = None,
            error = Some ''invalid_grant''\<rparr>))
   \<and> redis (snd (sso_callback stub_config refusing_token_endpoint (Some ''abc123'')
          (Some ''S1'') pending_login)) = redis pending_login"
proof -
  have bad: "json_or_raise_for_status (refusing_token_endpoint
      (AuthorizationCode (client_id stub_config) (authorization_redirect_url stub_config)
         (py_str (Some ''abc123''))
         (py_str (redis_get (redis pending_login)
            (CODE_VERIFIER_REDIS_KEY (py_str (Some ''S1'')))))))
    = Inl (HTTPBadRequest (ReasonDict
           \<lparr>access_token = None, refresh_token = None, expires_in = None,
            error = Some ''invalid_grant''\<rparr>))"
    by (simp add: json_or_raise_for_status_def refusing_token_endpoint_def truthy_def)
  have refused: "fst (sso_callback stub_config refusing_token_endpoint (Some ''abc123'')
          (Some ''S1'') pending_login)
       = Inl (HTTPBadRequest (ReasonDict
           \<lparr>access_token = None, refresh_token = None, expires_in = None,
            error = Some ''invalid_grant''\<rparr>))
   \<and> redis (snd (sso_callback stub_config refusing_token_endpoint (Some ''abc123'')
          (Some ''S1'') pending_login)) = redis pending_login"
    using sso_callback_exchanges_without_state_check
      [of "Some ''abc123''" stub_config refusing_token_endpoint "Some ''S1''" pending_login]
      bad
    by (simp add: truthy_def)
  have ok1: "fst (sso_callback stub_config stub_token_endpoint (Some ''abc123'') (Some ''S1'')
       pending_login) = Inr (Found ''https://ui/?access_token=AT1&refresh_token=RT1'')"
    by (simp add: sso_callback_def exchange_code_for_token_def request_exchange_result Let_def
       revoke_code_verifier_result set_access_token_def set_refresh_token_def
       prog_defs redis_set_def LLONG_MAX_def redis_exists_def redis_delete_def py_str_def truthy_def
       json_or_raise_for_status_def stub_token_endpoint_def stub_config_def pending_login_def
       TOKEN_REDIS_KEY_def CODE_VERIFIER_REDIS_KEY_def)
  have t: "truthy (Some ''abc123'')" "\<not> truthy None"
    by (simp_all add: truthy_def)
  have v: "redis_get (redis pending_login) (CODE_VERIFIER_REDIS_KEY (py_str (Some ''S1'')))
             = Some ''V1''"
    by (simp add: pending_login_def redis_get_def py_str_def)
  show ?thesis
    using sso_callback_exchanges_without_state_check
      [of "Some ''abc123''" stub_config stub_token_endpoint "Some ''S1''" pending_login]
      sso_callback_exchanges_without_state_check
      [of None stub_config stub_token_endpoint "Some ''S1''" pending_login]
      ok1 t v refused
    by (simp add: stub_config_def py_str_def pending_login_def)
qed

text \<open>
  The specification's sentence does not hold of the code: a callback for a state that has
  no stored verifier (the cache is empty) is not refused. The issuer is called with the
  verifier \<open>None\<close> and, when it accepts, the callback succeeds.
\<close>

theorem sso_callback_unknown_state_counterexample:
  "fst (sso_callback stub_config stub_token_endpoint (Some ''abc123'') (Some ''S1'') empty_world)
     = Inr (Found ''https://ui/?access_token=AT1&refresh_token=RT1'')
   \<and> issuer_log (snd (sso_callback stub_config stub_token_endpoint (Some ''abc123'')
        (Some ''S1'') empty_world))
     = [TokenPost (AuthorizationCode ''gateway'' ''https://gw/callback'' ''abc123'' ''None'')]"
  by (simp add: sso_callback_def exchange_code_for_token_def request_exchange_result Let_def
       revoke_code_verifier_result set_access_token_def set_refresh_token_def
       prog_defs redis_set_def LLONG_MAX_def redis_exists_def redis_delete_def redis_get_def py_str_def
       truthy_def json_or_raise_for_status_def stub_token_endpoint_def stub_config_def
       empty_world_def TOKEN_REDIS_KEY_def CODE_VERIFIER_REDIS_KEY_def)

text \<open>
  C4 (as amended). Login writes the verifier under the state's key with no expiry: the
  cache reports TTL -1 for it, and the entry is still there after any amount of time.
  A login whose callback never arrives stays in the cache.
\<close>

theorem login_stores_verifier_without_expiry:
  "redis_get (redis (snd (login cfg sha256 urandom1 urandom2 w)))
     (CODE_VERIFIER_REDIS_KEY (generate_state urandom1)) = Some (get_code_verifier urandom2)
   \<and> redis_ttl (redis (snd (login cfg sha256 urandom1 urandom2 w)))
       (CODE_VERIFIER_REDIS_KEY (generate_state urandom1)) = - 1
   \<and> (\<forall>n. redis_get (elapse n (redis (snd (login cfg sha256 urandom1 urandom2 w))))
         (CODE_VERIFIER_REDIS_KEY (generate_state urandom1)) = Some (get_code_verifier urandom2))"
  by (simp add: login_result redis_get_def redis_ttl_def elapse_def)

text \<open>
  The specification's sentence does not hold of the code: after a login (with forty zero
  bytes from the random source, twice) the entry has no TTL, and a year later (in
  milliseconds) it has not expired.
\<close>

theorem login_ttl_counterexample:
  "redis_ttl (redis (snd (login stub_config stub_digest (replicate 40 0) (replicate 40 0)
       empty_world)))
     (CODE_VERIFIER_REDIS_KEY (generate_state (replicate 40 0))) = - 1
   \<and> redis_exists (elapse 31536000000 (redis (snd (login stub_config stub_digest
        (replicate 40 0) (replicate 40 0) empty_world))))
     (CODE_VERIFIER_REDIS_KEY (generate_state (replicate 40 0)))"
  by (simp add: login_result redis_ttl_def redis_exists_def elapse_def)

text \<open>
  C5. \<open>has_token_expired\<close> raises \<open>KeyError\<close> (the spec's
  UnknownKey) when the cache reports TTL -2, returns \<open>False\<close> when it reports
  -1, and otherwise returns whether the TTL is at most 0. The two sentinels stand for
  different cache states: -2 is reported exactly for an absent key and -1 exactly for a
  key stored without expiry, so they are never conflated.
\<close>

theorem has_token_expired_sentinels:
  "(redis_ttl r k = - 2 \<longrightarrow>
      has_token_expired r k = Inl (KeyError (''Key '' @ k @ '' does not exist'')))
   \<and> (redis_ttl r k = - 1 \<longrightarrow> has_token_expired r k = Inr False)
   \<and> (redis_ttl r k \<noteq> - 2 \<and> redis_ttl r k \<noteq> - 1 \<longrightarrow>
        has_token_expired r k = Inr (redis_ttl r k \<le> 0))
   \<and> (redis_ttl r k = - 2 \<longleftrightarrow> r k = None)
   \<and> (redis_ttl r k = - 1 \<longleftrightarrow> (\<exists>e. r k = Some e \<and> pttl e = None))"
proof -
  have "redis_ttl r k = - 2 \<longrightarrow>
      has_token_expired r k = Inl (KeyError (''Key '' @ k @ '' does not exist''))"
    by (simp add: has_token_expired_def Let_def)
  moreover have "redis_ttl r k = - 1 \<longrightarrow> has_token_expired r k = Inr False"
    by (simp add: has_token_expired_def Let_def)
  moreover have "redis_ttl r k \<noteq> - 2 \<and> redis_ttl r k \<noteq> - 1 \<longrightarrow>
      has_token_expired r k = Inr (redis_ttl r k \<le> 0)"
    by (simp add: has_token_expired_def Let_def)
  ultimately show ?thesis
    using redis_ttl_absent [of r k] redis_ttl_no_expiry [of r k] by blast
qed

theorem has_token_expired_sentinels_witness:
  "has_token_expired Map.empty ''t'' = Inl (KeyError ''Key t does not exist'')
   \<and> has_token_expired [''t'' \<mapsto> \<lparr>payload = ''AT1'', pttl = None\<rparr>] ''t'' = Inr False
   \<and> has_token_expired [''t'' \<mapsto> \<lparr>payload = ''AT1'', pttl = Some 300\<rparr>] ''t'' = Inr True
   \<and> has_token_expired [''t'' \<mapsto> \<lparr>payload = ''AT1'', pttl = Some 3600000\<rparr>] ''t'' = Inr False"
  using has_token_expired_sentinels [of Map.empty "''t''"]
    has_token_expired_sentinels [of "[''t'' \<mapsto> \<lparr>payload = ''AT1'', pttl = None\<rparr>]" "''t''"]
    has_token_expired_sentinels [of "[''t'' \<mapsto> \<lparr>payload = ''AT1'', pttl = Some 300\<rparr>]" "''t''"]
    has_token_expired_sentinels [of "[''t'' \<mapsto> \<lparr>payload = ''AT1'', pttl = Some 3600000\<rparr>]" "''t''"]
  by (simp add: redis_ttl_def)

text \<open>
  C6. Logout of a token whose key is absent from the cache raises
  \<open>TokenAlreadyRevoked\<close> and changes nothing: the cache is as it was and no
  call to the issuer is logged. A refusal by the issuer is a different exception,
  \<open>ValueError\<close>. After a logout that succeeded, a second logout of the same
  token raises \<open>TokenAlreadyRevoked\<close>, whatever the issuer would answer.
\<close>

theorem logout_already_revoked:
  "(redis_exists (redis w) (TOKEN_REDIS_KEY @ '':'' @ sso_token) = False \<longrightarrow>
      logout cfg revoke_endpoint sso_token w = (Inl TokenAlreadyRevoked, w))
   \<and> (\<forall>e. redis w (TOKEN_REDIS_KEY @ '':'' @ sso_token) = Some e
            \<and> revoke_endpoint (payload e) \<noteq> 200 \<longrightarrow>
        fst (logout cfg revoke_endpoint sso_token w) = Inl ValueError
        \<and> fst (logout cfg revoke_endpoint sso_token w) \<noteq> Inl TokenAlreadyRevoked)
   \<and> (fst (logout cfg revoke_endpoint sso_token w) = Inr NoContent \<longrightarrow>
        (\<forall>revoke_endpoint2.
           logout cfg revoke_endpoint2 sso_token (snd (logout cfg revoke_endpoint sso_token w))
             = (Inl TokenAlreadyRevoked, snd (logout cfg revoke_endpoint sso_token w))))"
  by (auto simp add: logout_result redis_exists_def redis_delete_def split: option.splits)

theorem logout_already_revoked_witness:
  "logout stub_config (\<lambda>t. 200) ''AT1'' empty_world = (Inl TokenAlreadyRevoked, empty_world)
   \<and> fst (logout stub_config (\<lambda>t. 503) ''AT1'' issued) = Inl ValueError
   \<and> fst (logout stub_config (\<lambda>t. 200) ''AT1'' issued) = Inr NoContent
   \<and> logout stub_config (\<lambda>t. 200) ''AT1'' (snd (logout stub_config (\<lambda>t. 200) ''AT1'' issued))
       = (Inl TokenAlreadyRevoked, snd (logout stub_config (\<lambda>t. 200) ''AT1'' issued))"
proof -
  have ok1: "fst (logout stub_config (\<lambda>t. 200) ''AT1'' issued) = Inr NoContent"
    by (simp add: logout_result issued_def)
  have absent: "redis_exists (redis empty_world) (TOKEN_REDIS_KEY @ '':'' @ ''AT1'') = False"
    by (simp add: empty_world_def redis_exists_def)
  have present: "redis issued (TOKEN_REDIS_KEY @ '':'' @ ''AT1'')
                   = Some \<lparr>payload = ''RT1'', pttl = None\<rparr>"
    by (simp add: issued_def)
  show ?thesis
    using logout_already_revoked [of empty_world "''AT1''" stub_config "\<lambda>t. 200"]
      logout_already_revoked [of issued "''AT1''" stub_config "\<lambda>t. 503"]
      logout_already_revoked [of issued "''AT1''" stub_config "\<lambda>t. 200"]
      ok1 absent present
    by simp
qed




text \<open>
  C8. Whenever a login returns an authorization URL, the \<open>code_challenge\<close>
  field of that URL is the unpadded base64url encoding of the SHA-256 digest of the code
  verifier that the same login stored under the state, and the \<open>state\<close> field
  is that state. The URL is the issuer's part followed by the template's fields: for an
  issuer without braces the part is the issuer itself and the login always redirects; an
  issuer with braces is formatted with the rest, and when that fails the login raises the
  error of \<open>format\<close> instead of redirecting (the verifier is stored all the
  same). What the code computes, base64 with the \<open>=\<close> characters removed, is
  the unpadded encoding for every verifier; for a 32-byte digest it has 43 characters.
  Read back as a query, the URL gives this value for the parameter
  \<open>code_challenge\<close>, with the method \<open>S256\<close>, whenever the issuer's
  part contains no \<open>?\<close> and the configured client id, scopes and redirect URL
  contain no \<open>&\<close> (the code does not escape them).
\<close>

theorem login_code_challenge:
  "(CHR ''{'' \<notin> set (issuer cfg) \<and> CHR ''}'' \<notin> set (issuer cfg) \<longrightarrow>
      fst (login cfg sha256 urandom1 urandom2 w)
        = Inl (HTTPFound
         (issuer cfg @ ''/oauth2/authorize?response_type=code''
          @ ''&client_id='' @ client_id cfg @ ''&scope='' @ scopes cfg
          @ ''&redirect_uri='' @ authorization_redirect_url cfg
          @ ''&code_challenge_method=S256''
          @ ''&code_challenge=''
          @ base64url_nopad (sha256 (encode_utf8 (get_code_verifier urandom2)))
          @ ''&state='' @ generate_state urandom1)))
   \<and> (issuer_part cfg (get_code_challenge sha256 (get_code_verifier urandom2))
          (generate_state urandom1) = Inr formatted_issuer \<longrightarrow>
      fst (login cfg sha256 urandom1 urandom2 w)
        = Inl (HTTPFound
         (formatted_issuer @ ''/oauth2/authorize?response_type=code''
          @ ''&client_id='' @ client_id cfg @ ''&scope='' @ scopes cfg
          @ ''&redirect_uri='' @ authorization_redirect_url cfg
          @ ''&code_challenge_method=S256''
          @ ''&code_challenge=''
          @ base64url_nopad (sha256 (encode_utf8 (get_code_verifier urandom2)))
          @ ''&state='' @ generate_state urandom1)))
   \<and> (issuer_part cfg (get_code_challenge sha256 (get_code_verifier urandom2))
          (generate_state urandom1) = Inl e \<longrightarrow>
      fst (login cfg sha256 urandom1 urandom2 w) = Inl e)
   \<and> redis_get (redis (snd (login cfg sha256 urandom1 urandom2 w)))
         (CODE_VERIFIER_REDIS_KEY (generate_state urandom1))
       = Some (get_code_verifier urandom2)
   \<and> get_code_challenge sha256 code_verifier
       = base64url_nopad (sha256 (encode_utf8 code_verifier))
   \<and> (length (sha256 (encode_utf8 code_verifier)) = 32 \<longrightarrow>
        length (get_code_challenge sha256 code_verifier) = 43)
   \<and> (issuer_part cfg (get_code_challenge sha256 (get_code_verifier urandom2))
          (generate_state urandom1) = Inr formatted_issuer
        \<and> CHR ''?'' \<notin> set formatted_issuer \<and> CHR ''&'' \<notin> set (client_id cfg)
        \<and> CHR ''&'' \<notin> set (scopes cfg)
        \<and> CHR ''&'' \<notin> set (authorization_redirect_url cfg) \<longrightarrow>
        (\<exists>url.
           fst (login cfg sha256 urandom1 urandom2 w) = Inl (HTTPFound url)
           \<and> query_param ''code_challenge'' url
               = Some (base64url_nopad (sha256 (encode_utf8 (get_code_verifier urandom2))))
           \<and> query_param ''code_challenge_method'' url = Some ''S256''
           \<and> query_param ''state'' url = Some (generate_state urandom1)))"
proof (intro conjI impI)
  let ?cv = "get_code_verifier urandom2"
  let ?st = "generate_state urandom1"
  let ?ch = "get_code_challenge sha256 ?cv"
  have eq: "get_code_challenge sha256 v = base64url_nopad (sha256 (encode_utf8 v))" for v
    by (simp add: get_code_challenge_def strip_padding_is_nopad)
  have found: "fst (login cfg sha256 urandom1 urandom2 w)
                 = (case AUTHORIZATION_URL cfg ?ch ?st of Inl x \<Rightarrow> Inl x
                    | Inr url \<Rightarrow> Inl (HTTPFound url))"
    by (simp add: login_result)
  have formatted: "fst (login cfg sha256 urandom1 urandom2 w)
        = Inl (HTTPFound
         (p @ ''/oauth2/authorize?response_type=code''
          @ ''&client_id='' @ client_id cfg @ ''&scope='' @ scopes cfg
          @ ''&redirect_uri='' @ authorization_redirect_url cfg
          @ ''&code_challenge_method=S256''
          @ ''&code_challenge=''
          @ base64url_nopad (sha256 (encode_utf8 (get_code_verifier urandom2)))
          @ ''&state='' @ generate_state urandom1))"
    if "issuer_part cfg ?ch ?st = Inr p" for p
    unfolding found AUTHORIZATION_URL_def that
    by (simp add: eq)
  show "fst (login cfg sha256 urandom1 urandom2 w)
        = Inl (HTTPFound
         (issuer cfg @ ''/oauth2/authorize?response_type=code''
          @ ''&client_id='' @ client_id cfg @ ''&scope='' @ scopes cfg
          @ ''&redirect_uri='' @ authorization_redirect_url cfg
          @ ''&code_challenge_method=S256''
          @ ''&code_challenge=''
          @ base64url_nopad (sha256 (encode_utf8 (get_code_verifier urandom2)))
          @ ''&state='' @ generate_state urandom1))"
    if "CHR ''{'' \<notin> set (issuer cfg) \<and> CHR ''}'' \<notin> set (issuer cfg)"
    using that by (intro formatted issuer_part_plain) simp_all
  show "fst (login cfg sha256 urandom1 urandom2 w)
        = Inl (HTTPFound
         (formatted_issuer @ ''/oauth2/authorize?response_type=code''
          @ ''&client_id='' @ client_id cfg @ ''&scope='' @ scopes cfg
          @ ''&redirect_uri='' @ authorization_redirect_url cfg
          @ ''&code_challenge_method=S256''
          @ ''&code_challenge=''
          @ base64url_nopad (sha256 (encode_utf8 (get_code_verifier urandom2)))
          @ ''&state='' @ generate_state urandom1))"
    if "issuer_part cfg (get_code_challenge sha256 (get_code_verifier urandom2))
          (generate_state urandom1) = Inr formatted_issuer"
    using that by (rule formatted)
  show "fst (login cfg sha256 urandom1 urandom2 w) = Inl e"
    if "issuer_part cfg (get_code_challenge sha256 (get_code_verifier urandom2))
          (generate_state urandom1) = Inl e"
    unfolding found AUTHORIZATION_URL_def that by simp
  show "redis_get (redis (snd (login cfg sha256 urandom1 urandom2 w)))
         (CODE_VERIFIER_REDIS_KEY (generate_state urandom1))
       = Some (get_code_verifier urandom2)"
    by (simp add: login_result redis_get_def)
  show "get_code_challenge sha256 code_verifier
       = base64url_nopad (sha256 (encode_utf8 code_verifier))"
    by (rule eq)
  show "length (get_code_challenge sha256 code_verifier) = 43"
    if "length (sha256 (encode_utf8 code_verifier)) = 32"
    using that by (simp add: eq nopad_length)
  show "\<exists>url.
           fst (login cfg sha256 urandom1 urandom2 w) = Inl (HTTPFound url)
           \<and> query_param ''code_challenge'' url
               = Some (base64url_nopad (sha256 (encode_utf8 (get_code_verifier urandom2))))
           \<and> query_param ''code_challenge_method'' url = Some ''S256''
           \<and> query_param ''state'' url = Some (generate_state urandom1)"
    if cfg: "issuer_part cfg (get_code_challenge sha256 (get_code_verifier urandom2))
          (generate_state urandom1) = Inr formatted_issuer
        \<and> CHR ''?'' \<notin> set formatted_issuer \<and> CHR ''&'' \<notin> set (client_id cfg)
        \<and> CHR ''&'' \<notin> set (scopes cfg)
        \<and> CHR ''&'' \<notin> set (authorization_redirect_url cfg)"
  proof -
    have amp: "CHR ''&'' \<notin> set ?ch" "CHR ''&'' \<notin> set ?st"
      by (simp_all add: challenge_no_amp generate_state_def verifier_no_amp)
    from cfg have c: "issuer_part cfg ?ch ?st = Inr formatted_issuer"
      "CHR ''?'' \<notin> set formatted_issuer" "CHR ''&'' \<notin> set (client_id cfg)"
      "CHR ''&'' \<notin> set (scopes cfg)" "CHR ''&'' \<notin> set (authorization_redirect_url cfg)"
      by simp_all
    from authorization_url_params [OF c amp]
    obtain url where u: "AUTHORIZATION_URL cfg ?ch ?st = Inr url"
      and q: "query_param ''code_challenge'' url = Some ?ch"
        "query_param ''code_challenge_method'' url = Some ''S256''"
        "query_param ''state'' url = Some ?st"
      by blast
    have "fst (login cfg sha256 urandom1 urandom2 w) = Inl (HTTPFound url)"
      unfolding found u by simp
    with q show ?thesis
      unfolding eq by blast
  qed
qed

theorem login_code_challenge_witness:
  "fst (login stub_config stub_digest (replicate 40 0) (replicate 40 0) empty_world)
     = Inl (HTTPFound (''https://idp/oauth2/authorize?response_type=code&client_id=gateway''
          @ ''&scope=openid&redirect_uri=https://gw/callback&code_challenge_method=S256''
          @ ''&code_challenge=NjY2NjY2NjY2NjY2NjY2NjY2NjY2NjY2NjY2NjY2NjY''
          @ ''&state=AAAAAAAAAAAAAAAAAAAAAAAAAAAAAAAAAAAAAAAAAAAAAAAAAAAAAA''))
   \<and> query_param ''code_challenge''
        (''https://idp/oauth2/authorize?response_type=code&client_id=gateway''
          @ ''&scope=openid&redirect_uri=https://gw/callback&code_challenge_method=S256''
          @ ''&code_challenge=NjY2NjY2NjY2NjY2NjY2NjY2NjY2NjY2NjY2NjY2NjY''
          @ ''&state=AAAAAAAAAAAAAAAAAAAAAAAAAAAAAAAAAAAAAAAAAAAAAAAAAAAAAA'')
       = Some ''NjY2NjY2NjY2NjY2NjY2NjY2NjY2NjY2NjY2NjY2NjY''
   \<and> length (get_code_challenge stub_digest (get_code_verifier (replicate 40 0))) = 43
   \<and> fst (login templated_config stub_digest (replicate 40 0) (replicate 40 0) empty_world)
       = Inl (KeyError ''x'')"
proof -
  have cfg: "CHR ''{'' \<notin> set (issuer stub_config)" "CHR ''}'' \<notin> set (issuer stub_config)"
    "CHR ''?'' \<notin> set (issuer stub_config)" "CHR ''&'' \<notin> set (client_id stub_config)"
    "CHR ''&'' \<notin> set (scopes stub_config)"
    "CHR ''&'' \<notin> set (authorization_redirect_url stub_config)"
    by (simp_all add: stub_config_def)
  have ip: "issuer_part stub_config
              (get_code_challenge stub_digest (get_code_verifier (replicate 40 0)))
              (generate_state (replicate 40 0)) = Inr (issuer stub_config)"
    by (rule issuer_part_plain [OF cfg(1,2)])
  have tp: "issuer_part templated_config
              (get_code_challenge stub_digest (get_code_verifier (replicate 40 0)))
              (generate_state (replicate 40 0)) = Inl (KeyError ''x'')"
    by (simp add: issuer_part_def templated_config_def stub_config_def)
  have dl: "length (stub_digest (encode_utf8 (get_code_verifier (replicate 40 0)))) = 32"
    by (simp add: stub_digest_def)
  have ch: "base64url_nopad (stub_digest (encode_utf8 (get_code_verifier (replicate 40 0))))
              = ''NjY2NjY2NjY2NjY2NjY2NjY2NjY2NjY2NjY2NjY2NjY''"
    by (simp only: zero_verifier_digest zero_verifier_challenge)
  have st: "generate_state (replicate 40 0)
              = ''AAAAAAAAAAAAAAAAAAAAAAAAAAAAAAAAAAAAAAAAAAAAAAAAAAAAAA''"
    unfolding generate_state_def zero_verifier by simp
  have fields: "issuer stub_config = ''https://idp''" "client_id stub_config = ''gateway''"
    "scopes stub_config = ''openid''"
    "authorization_redirect_url stub_config = ''https://gw/callback''"
    by (simp_all add: stub_config_def)
  note t = login_code_challenge [of stub_config stub_digest "replicate 40 0" "replicate 40 0"
        empty_world "issuer stub_config" ValueError "get_code_verifier (replicate 40 0)"]
  note k = login_code_challenge [of templated_config stub_digest "replicate 40 0"
        "replicate 40 0" empty_world "[]" "KeyError ''x''" "[]"]
  have url: "fst (login stub_config stub_digest (replicate 40 0) (replicate 40 0) empty_world)
     = Inl (HTTPFound (''https://idp/oauth2/authorize?response_type=code&client_id=gateway''
          @ ''&scope=openid&redirect_uri=https://gw/callback&code_challenge_method=S256''
          @ ''&code_challenge=NjY2NjY2NjY2NjY2NjY2NjY2NjY2NjY2NjY2NjY2NjY''
          @ ''&state=AAAAAAAAAAAAAAAAAAAAAAAAAAAAAAAAAAAAAAAAAAAAAAAAAAAAAA''))"
    using t cfg(1,2) unfolding ch st fields by simp
  have q: "query_param ''code_challenge''
        (''https://idp/oauth2/authorize?response_type=code&client_id=gateway''
          @ ''&scope=openid&redirect_uri=https://gw/callback&code_challenge_method=S256''
          @ ''&code_challenge=NjY2NjY2NjY2NjY2NjY2NjY2NjY2NjY2NjY2NjY2NjY''
          @ ''&state=AAAAAAAAAAAAAAAAAAAAAAAAAAAAAAAAAAAAAAAAAAAAAAAAAAAAAA'')
       = Some ''NjY2NjY2NjY2NjY2NjY2NjY2NjY2NjY2NjY2NjY2NjY''"
    using t ip cfg unfolding url ch by auto
  have l: "length (get_code_challenge stub_digest (get_code_verifier (replicate 40 0))) = 43"
    using t dl by blast
  have e: "fst (login templated_config stub_digest (replicate 40 0) (replicate 40 0)
             empty_world) = Inl (KeyError ''x'')"
    using k tp by blast
  from url q l e show ?thesis by blast
qed

text \<open>
  C9 (as amended). Looking a key up fetches the JWKS exactly once and never again: both
  \<open>request_public_key\<close> and \<open>get_public_key\<close> add one JWKS call to
  the log whatever the token and the answer are. When the \<open>kid\<close> of the token
  is not in the set just fetched, \<open>request_public_key\<close> raises
  \<open>KeyError\<close> at once. A whole verification calls userinfo and then the JWKS
  endpoint at most once.
\<close>

theorem jwks_fetched_once_without_retry:
  "issuer_log (snd (request_public_key lib jw token w)) = issuer_log w @ [JwksGet]
   \<and> issuer_log (snd (get_public_key lib jw opt_token w)) = issuer_log w @ [JwksGet]
   \<and> (\<forall>k. jwks_status jw < 400 \<and> unverified_kid lib token = Inr k
          \<and> k \<notin> kid ` set (jwks_keys jw)
        \<longrightarrow> request_public_key lib jw token w
              = (Inl (KeyError k), w\<lparr>issuer_log := issuer_log w @ [JwksGet]\<rparr>))
   \<and> issuer_log (snd (decode_avanpost_jwt cfg lib ui jw token w))
       \<in> {issuer_log w @ [UserinfoGet token], issuer_log w @ [UserinfoGet token, JwksGet]}"
  using request_public_key_log [of lib jw token w] get_public_key_log [of lib jw opt_token w]
    decode_log [of cfg lib ui jw token w]
  by (auto simp add: request_public_key_unknown_kid)

theorem jwks_fetched_once_without_retry_witness:
  "request_public_key stub_pyjwt stub_jwks ''rotated'' empty_world
     = (Inl (KeyError ''2''), empty_world\<lparr>issuer_log := [JwksGet]\<rparr>)
   \<and> issuer_log (snd (get_public_key stub_pyjwt stub_jwks (Some ''rotated'') empty_world))
     = [JwksGet]"
  using jwks_fetched_once_without_retry [of stub_pyjwt stub_jwks "''rotated''" empty_world
      "Some ''rotated''" stub_config stub_userinfo]
  by (simp add: stub_pyjwt_def stub_jwks_def empty_world_def)

text \<open>
  The specification's sentence does not hold of the code: for a token whose
  \<open>kid\<close> is not in the fetched set, the lookup fails with
  \<open>KeyError\<close> after one JWKS call, not two; and in the middleware the request
  ends with that \<open>KeyError\<close> after one userinfo call and one JWKS call.
\<close>

theorem jwks_no_refetch_counterexample:
  "fst (request_public_key stub_pyjwt stub_jwks ''rotated'' empty_world) = Inl (KeyError ''2'')
   \<and> issuer_log (snd (request_public_key stub_pyjwt stub_jwks ''rotated'' empty_world))
       = [JwksGet]
   \<and> fst (jwt_middleware stub_config stub_pyjwt stub_userinfo stub_jwks stub_options
          (bearer ''rotated'') stub_handler fresh) = Inl (KeyError ''2'')
   \<and> issuer_log (app (snd (jwt_middleware stub_config stub_pyjwt stub_userinfo stub_jwks
          stub_options (bearer ''rotated'') stub_handler fresh)))
       = [UserinfoGet ''rotated'', JwksGet]"
proof -
  have a: "request_public_key stub_pyjwt stub_jwks ''rotated'' empty_world
     = (Inl (KeyError ''2''), empty_world\<lparr>issuer_log := issuer_log empty_world @ [JwksGet]\<rparr>)"
    by (rule request_public_key_unknown_kid) (simp_all add: stub_pyjwt_def stub_jwks_def)
  have d: "decode_avanpost_jwt stub_config stub_pyjwt stub_userinfo stub_jwks
              (py_str (Some ''rotated'')) (app fresh)
            = (Inl (KeyError ''2''),
               (app fresh)\<lparr>issuer_log := issuer_log (app fresh) @ [UserinfoGet ''rotated'', JwksGet]\<rparr>)"
    by (simp add: stub_decode py_str_def)
  have t: "truthy (Some ''rotated'')" by (simp add: truthy_def)
  have m: "jwt_middleware stub_config stub_pyjwt stub_userinfo stub_jwks stub_options
          (bearer ''rotated'') stub_handler fresh =
     (Inl (case KeyError ''2'' of
             InvalidTokenError msg \<Rightarrow> HTTPUnauthorized (''Invalid authorization token, '' @ msg)
           | _ \<Rightarrow> KeyError ''2''),
      fresh\<lparr>trace := trace fresh @ [START, WHITELIST_CHECK, TOKEN_EXTRACT, TOKEN_VERIFY],
        app := (app fresh)\<lparr>issuer_log := issuer_log (app fresh) @ [UserinfoGet ''rotated'', JwksGet]\<rparr>\<rparr>)"
    by (rule mw_verify_raises [OF stub_request_facts(1,2,3) _ t d]) (simp add: bearer_def)
  show ?thesis
    unfolding a m by (simp add: empty_world_def fresh_def issued_def)
qed

text \<open>
  C10 (as amended). When the decoded claims have no \<open>groups\<close> key,
  \<open>has_permissions\<close> raises \<open>TypeError\<close>, and a request that
  reaches the permission check with such claims ends with that \<open>TypeError\<close> at
  PERMISSION_CHECK instead of a 403. The check returns a boolean whenever
  \<open>groups\<close> is an iterable of dicts, but not only then: \<open>any\<close>
  stops at the first group that has the required name, so the check returns exactly when
  \<open>groups\<close> is iterable and its elements before that group (all of them, when
  there is none) are dicts.
\<close>

theorem has_permissions_partial:
  "(map_of token ''groups'' = None \<longrightarrow> has_permissions cfg token = Inl TypeError)
   \<and> (\<forall>getter tok decoded w1 w2.
         http_method req \<noteq> ''OPTIONS'' \<and> \<not> whitelisted opts req
         \<and> token_getter opts = Some getter \<and> getter req = Inr tok \<and> truthy tok
         \<and> decode_avanpost_jwt cfg lib ui jw (py_str tok) (app s) = (Inr decoded, w1)
         \<and> ((is_revoked_arg opts = None \<and> w2 = w1) \<or>
            (\<exists>f res. is_revoked_arg opts = Some f
               \<and> f req (py_str tok) w1 = (Inr res, w2) \<and> res \<noteq> Some True))
         \<and> map_of decoded ''groups'' = None
       \<longrightarrow> fst (jwt_middleware cfg lib ui jw opts req handler s) = Inl TypeError
           \<and> trace (snd (jwt_middleware cfg lib ui jw opts req handler s))
             = trace s @ [START, WHITELIST_CHECK, TOKEN_EXTRACT, TOKEN_VERIFY,
                          REVOCATION_CHECK, CONTEXT_ATTACH, PERMISSION_CHECK])
   \<and> (\<forall>groups. py_iter (py_get token ''groups'') = Inr groups
          \<and> (\<forall>g \<in> set groups. \<exists>d. g = JDict d)
        \<longrightarrow> (\<exists>b. has_permissions cfg token = Inr b))
   \<and> ((\<exists>b. has_permissions cfg token = Inr b) \<longleftrightarrow>
        (\<exists>groups. py_iter (py_get token ''groups'') = Inr groups
           \<and> (\<forall>g \<in> set (takeWhile
                  (\<lambda>g. \<forall>d. g = JDict d \<longrightarrow> py_get d ''name'' \<noteq> JStr (parma_ml_group_name cfg))
                  groups).
                \<exists>d. g = JDict d)))"
proof (intro conjI allI impI)
  assume "map_of token ''groups'' = None"
  then show "has_permissions cfg token = Inl TypeError"
    by (rule has_permissions_no_groups)
next
  fix getter tok decoded w1 w2
  assume h: "http_method req \<noteq> ''OPTIONS'' \<and> \<not> whitelisted opts req
         \<and> token_getter opts = Some getter \<and> getter req = Inr tok \<and> truthy tok
         \<and> decode_avanpost_jwt cfg lib ui jw (py_str tok) (app s) = (Inr decoded, w1)
         \<and> ((is_revoked_arg opts = None \<and> w2 = w1) \<or>
            (\<exists>f res. is_revoked_arg opts = Some f
               \<and> f req (py_str tok) w1 = (Inr res, w2) \<and> res \<noteq> Some True))
         \<and> map_of decoded ''groups'' = None"
  then have p: "has_permissions cfg decoded = Inl TypeError"
    by (simp add: has_permissions_no_groups)
  have r: "jwt_middleware cfg lib ui jw opts req handler s =
     (Inl TypeError,
      s\<lparr>trace := trace s @ [START, WHITELIST_CHECK, TOKEN_EXTRACT, TOKEN_VERIFY, REVOCATION_CHECK,
                            CONTEXT_ATTACH, PERMISSION_CHECK],
        app := w2, items := (items s)(request_property opts \<mapsto> Claims decoded)\<rparr>)"
    using mw_permission_raises [of req opts getter tok cfg lib ui jw s decoded w1 w2 TypeError
        handler] h p
    by blast
  show "fst (jwt_middleware cfg lib ui jw opts req handler s) = Inl TypeError"
    by (simp add: r)
  show "trace (snd (jwt_middleware cfg lib ui jw opts req handler s))
             = trace s @ [START, WHITELIST_CHECK, TOKEN_EXTRACT, TOKEN_VERIFY,
                          REVOCATION_CHECK, CONTEXT_ATTACH, PERMISSION_CHECK]"
    by (simp add: r)
next
  fix groups
  assume "py_iter (py_get token ''groups'') = Inr groups \<and> (\<forall>g \<in> set groups. \<exists>d. g = JDict d)"
  then show "\<exists>b. has_permissions cfg token = Inr b"
    using any_group_named_dicts [of groups "parma_ml_group_name cfg"]
    by (simp add: has_permissions_def)
next
  show "(\<exists>b. has_permissions cfg token = Inr b) \<longleftrightarrow>
        (\<exists>groups. py_iter (py_get token ''groups'') = Inr groups
           \<and> (\<forall>g \<in> set (takeWhile
                  (\<lambda>g. \<forall>d. g = JDict d \<longrightarrow> py_get d ''name'' \<noteq> JStr (parma_ml_group_name cfg))
                  groups).
                \<exists>d. g = JDict d))"
    by (cases "py_iter (py_get token ''groups'')")
       (simp_all add: has_permissions_def any_group_named_total)
qed

theorem has_permissions_partial_witness:
  "has_permissions stub_config [(''sub'', JStr ''carol'')] = Inl TypeError
   \<and> fst (jwt_middleware stub_config stub_pyjwt stub_userinfo stub_jwks stub_options
          (bearer ''nogroups'') stub_handler fresh) = Inl TypeError
   \<and> (\<exists>b. has_permissions stub_config
             [(''groups'', JList [JDict [(''name'', JStr ''sales'')], JDict []])] = Inr b)"
proof -
  let ?w = "(app fresh)\<lparr>issuer_log := issuer_log (app fresh) @ [UserinfoGet ''nogroups'', JwksGet]\<rparr>"
  have d: "decode_avanpost_jwt stub_config stub_pyjwt stub_userinfo stub_jwks
              (py_str (Some ''nogroups'')) (app fresh) = (Inr [(''sub'', JStr ''carol'')], ?w)"
    by (simp add: stub_decode py_str_def) (simp add: stub_pyjwt_def)
  have rv: "is_revoked (py_str (Some ''nogroups'')) ?w = (Inr None, ?w)"
    by (simp add: is_revoked_def prog_defs)
  have t: "truthy (Some ''nogroups'')" by (simp add: truthy_def)
  have g: "map_of [(''sub'', JStr ''carol'')] ''groups'' = None" by simp
  have i: "py_iter (py_get [(''groups'', JList [JDict [(''name'', JStr ''sales'')], JDict []])]
             ''groups'') = Inr [JDict [(''name'', JStr ''sales'')], JDict []]
           \<and> (\<forall>g \<in> set [JDict [(''name'', JStr ''sales'')], JDict []]. \<exists>d. g = JDict d)"
    by (simp add: py_get_def)
  have a: "has_permissions stub_config [(''sub'', JStr ''carol'')] = Inl TypeError"
    using has_permissions_partial [of "[(''sub'', JStr ''carol'')]" stub_config] g by blast
  have b: "fst (jwt_middleware stub_config stub_pyjwt stub_userinfo stub_jwks stub_options
          (bearer ''nogroups'') stub_handler fresh) = Inl TypeError"
    using has_permissions_partial [of "[]" stub_config "bearer ''nogroups''" stub_options
        stub_pyjwt stub_userinfo stub_jwks fresh stub_handler] d rv t g stub_request_facts
    by blast
  have c: "\<exists>b. has_permissions stub_config
             [(''groups'', JList [JDict [(''name'', JStr ''sales'')], JDict []])] = Inr b"
    using has_permissions_partial
      [of "[(''groups'', JList [JDict [(''name'', JStr ''sales'')], JDict []])]" stub_config] i
    by blast
  from a b c show ?thesis by blast
qed

text \<open>
  The specification's sentence does not hold of the code in its last part: the check
  returns \<open>True\<close> for a payload whose \<open>groups\<close> list holds the
  required group followed by a number, which is not an iterable of dicts.
\<close>

theorem has_permissions_short_circuit_counterexample:
  "has_permissions stub_config
     [(''groups'', JList [JDict [(''name'', JStr ''parma-ml'')], JNum 5])] = Inr True"
  by (simp add: has_permissions_def py_get_def stub_config_def)

end
